theory Spec2Isabelle
  imports Main "HOL-Library.Word" "HOL-Library.Multiset" "HOL-Library.Sublist"
begin

unbundle bit_operations_syntax

section \<open>Primitive types\<close>

text \<open>
  Go's \<open>uint64\<close> and \<open>int64\<close> are both 64-bit words; \<open>unat\<close> reads the unsigned
  value and \<open>sint\<close> the two's complement one. The signed comparisons of the source
  are \<open><s\<close> and \<open><=s\<close>. A byte string is a list of 8-bit words.
\<close>

type_synonym u64 = "64 word"
type_synonym i64 = "64 word"
type_synonym bytes = "8 word list"

text \<open>\<open>bc.Hash\<close> and \<open>bc.AssetID\<close>: four 64-bit limbs each.\<close>

datatype Hash = Hash u64 u64 u64 u64
datatype AssetID = AssetID u64 u64 u64 u64

section \<open>Consensus constants (package consensus)\<close>

definition MaxBlockGas :: u64 where "MaxBlockGas = 10000000"
definition VMGasRate :: i64 where "VMGasRate = 200"
definition StorageGasRate :: i64 where "StorageGasRate = 1"
definition MaxGasAmount :: i64 where "MaxGasAmount = 5000000"
definition DefaultGasCredit :: i64 where "DefaultGasCredit = 30000"
definition subsidyReductionInterval :: u64 where "subsidyReductionInterval = NOT 0"
definition baseSubsidy :: u64 where "baseSubsidy = 750000000"
definition InitialBlockSubsidy :: u64 where "InitialBlockSubsidy = 140700000750000000"
definition CoinbaseArbitrarySizeLimit :: nat where "CoinbaseArbitrarySizeLimit = 128"
definition PayToWitnessScriptHashDataSize :: nat where "PayToWitnessScriptHashDataSize = 20"

definition NativeAssetID :: AssetID where
  "NativeAssetID = AssetID 18446744073709551615 18446744073709551615
                           18446744073709551615 18446744073709551615"

definition MaxInt64 :: i64 where "MaxInt64 = 9223372036854775807"

text \<open>
  \<open>BlockSubsidy\<close>: the reward at a height. Go's \<open>x >> uint(n)\<close> on a \<open>uint64\<close>
  is a logical shift, and a count of 64 or more gives 0, as \<open>drop_bit\<close> does.
\<close>

definition BlockSubsidy :: "u64 \<Rightarrow> u64" where
  "BlockSubsidy height =
     (if height = 0 then InitialBlockSubsidy
      else drop_bit (unat (height div subsidyReductionInterval)) baseSubsidy)"

section \<open>Checked arithmetic (package basis/math/checked)\<close>

text \<open>
  Modelled from the spec: package \<open>basis/math/checked\<close> is not among the source
  files; the validator only relies on its contract. Each function returns the exact
  result and \<open>True\<close> when the mathematical result fits \<open>int64\<close>, and \<open>(0, False)\<close>
  otherwise (division also fails on a zero divisor). Go's integer division truncates
  towards zero.
\<close>

definition fitsInt64 :: "int \<Rightarrow> bool" where
  "fitsInt64 v \<longleftrightarrow> - (2 ^ 63) \<le> v \<and> v < 2 ^ 63"

definition AddInt64 :: "i64 \<Rightarrow> i64 \<Rightarrow> i64 \<times> bool" where
  "AddInt64 a b = (if fitsInt64 (sint a + sint b) then (a + b, True) else (0, False))"

definition SubInt64 :: "i64 \<Rightarrow> i64 \<Rightarrow> i64 \<times> bool" where
  "SubInt64 a b = (if fitsInt64 (sint a - sint b) then (a - b, True) else (0, False))"

definition MulInt64 :: "i64 \<Rightarrow> i64 \<Rightarrow> i64 \<times> bool" where
  "MulInt64 a b = (if fitsInt64 (sint a * sint b) then (a * b, True) else (0, False))"

definition truncDiv :: "int \<Rightarrow> int \<Rightarrow> int" where
  "truncDiv a b = sgn a * sgn b * (\<bar>a\<bar> div \<bar>b\<bar>)"

definition DivInt64 :: "i64 \<Rightarrow> i64 \<Rightarrow> i64 \<times> bool" where
  "DivInt64 a b =
     (if b = 0 \<or> \<not> fitsInt64 (truncDiv (sint a) (sint b)) then (0, False)
      else (word_of_int (truncDiv (sint a) (sint b)), True))"

section \<open>Errors\<close>

text \<open>
  The error values of packages validation, bc and vm that the modelled code returns.
  \<open>errors.Wrap\<close> and \<open>errors.WithDetailf\<close> keep the root error and add a message;
  the model keeps the root error only. \<open>ErrPanic\<close> stands for a Go run-time panic
  (a nil dereference or an index out of range), \<open>ErrOther\<close> for an error made on
  the spot with \<open>errors.New\<close> or \<open>fmt.Errorf\<close>, and \<open>ErrVM\<close> for whatever error
  the script interpreter reports.
\<close>

datatype error =
    ErrTxVersion
  | ErrWrongTransactionSize
  | ErrBadTimeRange
  | ErrNotStandardTx
  | ErrWrongCoinbaseTransaction
  | ErrWrongCoinbaseAsset
  | ErrCoinbaseArbitraryOversize
  | ErrEmptyResults
  | ErrMismatchedAssetID
  | ErrMismatchedPosition
  | ErrMismatchedReference
  | ErrMismatchedValue
  | ErrMissingField
  | ErrNoSource
  | ErrOverflow
  | ErrPosition
  | ErrUnbalanced
  | ErrOverGasCredit
  | ErrGasCalculate
  | ErrMissingEntry
  | ErrEntryType
  | ErrDataStackUnderflow
  | ErrShortProgram
  | ErrRunLimitExceeded
  | ErrInsufficientBalance
  | errOverBlockLimit
  | ErrVM nat
  | ErrOther string
  | ErrPanic

section \<open>Gas state (validation.GasState)\<close>

record GasState =
  AssetValue :: u64
  GasLeft :: i64
  GasUsed :: i64
  GasValid :: bool
  StorageGas :: i64

text \<open>
  The methods mutate the receiver and return an error; the model returns the error
  (\<open>None\<close> for nil) together with the receiver as the method leaves it, also on the
  failing paths.
\<close>

definition setGas :: "GasState \<Rightarrow> i64 \<Rightarrow> i64 \<Rightarrow> error option \<times> GasState" where
  "setGas g assetValue txSize =
     (if assetValue <s 0 then (Some ErrGasCalculate, g)
      else
        let g1 = g\<lparr>AssetValue := assetValue\<rparr>;
            (q, ok) = DivInt64 assetValue VMGasRate;
            g2 = g1\<lparr>GasLeft := q\<rparr>
        in if \<not> ok then (Some ErrGasCalculate, g2)
           else
             let g3 = (if MaxGasAmount <s GasLeft g2 then g2\<lparr>GasLeft := MaxGasAmount\<rparr> else g2);
                 (s, ok2) = MulInt64 txSize StorageGasRate;
                 g4 = g3\<lparr>StorageGas := s\<rparr>
             in if \<not> ok2 then (Some ErrGasCalculate, g4) else (None, g4))"

definition setGasValid :: "GasState \<Rightarrow> error option \<times> GasState" where
  "setGasValid g =
     (let (d, ok) = SubInt64 (GasLeft g) (StorageGas g);
          g1 = g\<lparr>GasLeft := d\<rparr>
      in if \<not> ok \<or> GasLeft g1 <s 0 then (Some ErrGasCalculate, g1)
         else
           let (u, ok2) = AddInt64 (GasUsed g1) (StorageGas g1);
               g2 = g1\<lparr>GasUsed := u\<rparr>
           in if \<not> ok2 then (Some ErrGasCalculate, g2)
              else (None, g2\<lparr>GasValid := True\<rparr>))"

definition updateUsage :: "GasState \<Rightarrow> i64 \<Rightarrow> error option \<times> GasState" where
  "updateUsage g gasLeft =
     (if gasLeft <s 0 then (Some ErrGasCalculate, g)
      else
        let (gasUsed, ok) = SubInt64 (GasLeft g) gasLeft
        in if \<not> ok then (Some ErrGasCalculate, g)
           else
             let g1 = g\<lparr>GasUsed := GasUsed g + gasUsed, GasLeft := gasLeft\<rparr>
             in if \<not> GasValid g1 \<and>
                   (DefaultGasCredit <s GasUsed g1 \<or> GasLeft g1 <s StorageGas g1)
                then (Some ErrOverGasCredit, g1)
                else (None, g1))"

section \<open>Entries of the transaction graph (package bc)\<close>

text \<open>
  The entries are immutable data. A pointer field that the validator tests against nil
  is an \<open>option\<close> (\<open>None\<close> for nil); a pointer it always dereferences untested (a
  program, an asset definition, the ids listed in a header) is the value itself.
\<close>

datatype AssetAmount = AssetAmount (AssetId: "AssetID option") (Amount: u64)

datatype Program = Program (VmVersion: u64) (Code: bytes)

datatype ValueSource =
  ValueSource (Ref: "Hash option") (Value: "AssetAmount option") (Position: u64)

datatype ValueDestination =
  ValueDestination (Ref: "Hash option") (Value: "AssetAmount option") (Position: u64)

datatype AssetDefinition = AssetDefinition (Data: Hash) (IssuanceProgram: Program)

datatype TxHeader =
  TxHeader (Version: u64) (SerializedSize: u64) (TimeRange: u64)
           (ResultIds: "Hash list") (MuxId: Hash) (Data: Hash)

datatype Mux =
  Mux (Sources: "ValueSource option list") (MuxProgram: Program)
      (WitnessDestinations: "ValueDestination option list")

datatype Issuance =
  Issuance (NonceHash: Hash) (Value: "AssetAmount option")
           (WitnessDestination: "ValueDestination option")
           (WitnessAssetDefinition: AssetDefinition)
           (WitnessArguments: "bytes list") (Ordinal: u64)

datatype Spend =
  Spend (SpentOutputId: "Hash option") (WitnessDestination: "ValueDestination option")
        (WitnessArguments: "bytes list") (Ordinal: u64)

datatype Coinbase =
  Coinbase (WitnessDestination: "ValueDestination option") (Arbitrary: bytes)

datatype Creation =
  Creation (Nonce: u64) (From: Program) (Input: Program)
           (WitnessArguments: "bytes list")
           (WitnessDestination: "ValueDestination option") (Ordinal: u64)

datatype Call =
  Call (Nonce: u64) (From: Program) (To: Program) (Input: Program)
       (WitnessArguments: "bytes list")
       (WitnessDestination: "ValueDestination option") (Ordinal: u64)

datatype Contract =
  Contract (Nonce: u64) (From: Program) (To: bytes) (Input: Program)
           (WitnessArguments: "bytes list")
           (WitnessDestination: "ValueDestination option") (Ordinal: u64)

datatype Deposit =
  Deposit (Source: "ValueSource option") (ControlProgram: Program) (Ordinal: u64)

datatype Withdrawal =
  Withdrawal (ControlProgram: Program) (Value: "AssetAmount option")
             (WithdrawProgram: Program) (WitnessArguments: "bytes list")
             (WitnessDestination: "ValueDestination option") (Ordinal: u64)

datatype Output =
  Output (Source: "ValueSource option") (ControlProgram: Program) (Ordinal: u64)

datatype Retirement = Retirement (Source: "ValueSource option") (Ordinal: u64)

text \<open>The \<open>bc.Entry\<close> interface is a closed sum of the twelve entry types.\<close>

datatype Entry =
    TxHeaderE TxHeader
  | MuxE Mux
  | IssuanceE Issuance
  | SpendE Spend
  | CoinbaseE Coinbase
  | CreationE Creation
  | CallE Call
  | ContractE Contract
  | DepositE Deposit
  | WithdrawalE Withdrawal
  | OutputE Output
  | RetirementE Retirement

text \<open>
  \<open>bc.Tx\<close> embeds its header; \<open>Entries\<close> is the map from entry id to entry.
  \<open>bc.Block\<close> keeps the header fields the validator reads and its transactions.

  The code never holds a \<open>bc.Tx\<close> but through a pointer: \<open>Block.Transactions\<close> is a
  \<open>[]*bc.Tx\<close> and \<open>ValidationState.tx\<close> a \<open>*bc.Tx\<close>. A value of the record below is
  such a pointer: \<open>Addr\<close> is the address it holds, the other fields are those of the
  object at that address. Go's \<open>==\<close> and \<open>!=\<close> on two \<open>*bc.Tx\<close> compare the addresses and
  nothing else, so two transactions with the same content at two addresses are
  different, and the same pointer listed twice is equal to itself.
\<close>

record Tx =
  Addr :: nat
  Header :: TxHeader
  ID :: Hash
  Entries :: "(Hash \<times> Entry) list"
  InputIDs :: "Hash list"
  SpentOutputIDs :: "Hash list"
  GasInputIDs :: "Hash list"

record Block =
  BlockVersion :: u64
  Height :: u64
  Transactions :: "Tx list"

text \<open>
  Go's map \<open>tx.Entries\<close> is kept as the list of its key and entry pairs, and
  \<open>tx.Entries[id]\<close> is the lookup in it.
\<close>

definition lookupEntry :: "Tx \<Rightarrow> Hash \<Rightarrow> Entry option" where
  "lookupEntry t i = map_of (Entries t) i"

text \<open>
  Modelled from the spec: \<open>AssetAmount.Equal\<close> is not among the source files. It
  reports an error (\<open>None\<close>) when either amount or either asset id is nil, and
  otherwise whether amount and asset id agree.
\<close>

definition AssetAmount_Equal :: "AssetAmount option \<Rightarrow> AssetAmount option \<Rightarrow> bool option" where
  "AssetAmount_Equal a other =
     (case (a, other) of
        (Some x, Some y) \<Rightarrow>
          (case (AssetId x, AssetId y) of
             (Some i, Some j) \<Rightarrow> Some (Amount x = Amount y \<and> i = j)
           | _ \<Rightarrow> None)
      | _ \<Rightarrow> None)"

text \<open>\<open>Tx.Output\<close>: the entry with the given id, when it is an output.\<close>

definition Tx_Output :: "Tx \<Rightarrow> Hash \<Rightarrow> error + Output" where
  "Tx_Output t i =
     (case lookupEntry t i of
        None \<Rightarrow> Inl ErrMissingEntry
      | Some (OutputE out) \<Rightarrow> Inr out
      | Some _ \<Rightarrow> Inl ErrEntryType)"

section \<open>The script interpreter's interface (package vm)\<close>

text \<open>
  \<open>vm.ParseProgram\<close>, the opcode table and the recognisers \<open>IsOpCreate\<close> and
  \<open>IsOpContract\<close> are not among the source files: the classifiers that are take them
  as a parameter, written \<open>vm\<close> as the package is. An \<open>Op\<close> is a byte, compared
  unsigned.
\<close>

datatype Instruction = Instruction (Op: "8 word") (Len: "32 word") (Data: bytes)

record vmpkg =
  ParseProgram :: "bytes \<Rightarrow> error + Instruction list"
  OP_16 :: "8 word"
  OP_TRUE :: "8 word"
  OP_FAIL :: "8 word"
  OP_DATA_1 :: "8 word"
  OP_DATA_20 :: "8 word"
  OP_PUSHDATA4 :: "8 word"
  VM_EVM :: "8 word"
  OP_CALL :: "8 word"
  OP_DEPOSIT :: "8 word"
  OP_WITHDRAW :: "8 word"
  IsOpCreate :: "bytes \<Rightarrow> bool"
  IsOpContract :: "bytes \<Rightarrow> bool"

definition IsOpCall :: "vmpkg \<Rightarrow> bytes \<Rightarrow> bool" where
  "IsOpCall vm prog =
     (case ParseProgram vm prog of
        Inl _ \<Rightarrow> False
      | Inr insts \<Rightarrow>
          if length insts \<noteq> 3 then False
          else if OP_16 vm < Op (insts ! 0) then False
          else if Op (insts ! 1) < OP_DATA_1 vm \<or> OP_PUSHDATA4 vm < Op (insts ! 1) then False
          else Op (insts ! (length insts - 1)) = OP_CALL vm)"

definition IsOpDeposit :: "vmpkg \<Rightarrow> bytes \<Rightarrow> bool" where
  "IsOpDeposit vm prog =
     (case ParseProgram vm prog of
        Inl _ \<Rightarrow> False
      | Inr insts \<Rightarrow>
          if length insts \<noteq> 4 then False
          else if OP_16 vm < Op (insts ! 0) then False
          else if OP_16 vm < Op (insts ! 1) then False
          else if Op (insts ! 2) \<noteq> OP_DATA_20 vm \<or> length (Data (insts ! 2)) \<noteq> 20 then False
          else Op (insts ! (length insts - 1)) = OP_DEPOSIT vm)"

definition IsOpWithdraw :: "vmpkg \<Rightarrow> bytes \<Rightarrow> bool" where
  "IsOpWithdraw vm prog =
     (case ParseProgram vm prog of
        Inl _ \<Rightarrow> False
      | Inr insts \<Rightarrow>
          if length insts \<noteq> 4 then False
          else if OP_16 vm < Op (insts ! 0) then False
          else if OP_16 vm < Op (insts ! 1) then False
          else if Op (insts ! 2) \<noteq> OP_DATA_20 vm \<or> length (Data (insts ! 2)) \<noteq> 20 then False
          else Op (insts ! (length insts - 1)) = OP_WITHDRAW vm)"

text \<open>\<open>vmutil.IsUnspendable\<close>: the program leads with \<open>OP_FAIL\<close>.\<close>

definition IsUnspendable :: "vmpkg \<Rightarrow> bytes \<Rightarrow> bool" where
  "IsUnspendable vm prog = (case prog of [] \<Rightarrow> False | b # _ \<Rightarrow> b = OP_FAIL vm)"

section \<open>The program classifier (package segwit)\<close>

definition IsStraightforward :: "vmpkg \<Rightarrow> bytes \<Rightarrow> bool" where
  "IsStraightforward vm prog =
     (case ParseProgram vm prog of
        Inl _ \<Rightarrow> False
      | Inr insts \<Rightarrow>
          if length insts \<noteq> 1 then False
          else Op (insts ! 0) = OP_TRUE vm \<or> Op (insts ! 0) = OP_FAIL vm)"

definition IsP2WSHScript :: "vmpkg \<Rightarrow> bytes \<Rightarrow> bool" where
  "IsP2WSHScript vm prog =
     (case ParseProgram vm prog of
        Inl _ \<Rightarrow> False
      | Inr insts \<Rightarrow>
          if length insts \<noteq> 2 then False
          else if OP_16 vm < Op (insts ! 0) then False
          else Op (insts ! 1) = OP_DATA_20 vm \<and>
               length (Data (insts ! 1)) = PayToWitnessScriptHashDataSize)"

definition IsP2ContractProgram :: "vmpkg \<Rightarrow> bytes \<Rightarrow> bool" where
  "IsP2ContractProgram vm prog =
     (case ParseProgram vm prog of
        Inl _ \<Rightarrow> False
      | Inr insts \<Rightarrow>
          if length insts \<noteq> 3 then False
          else if OP_16 vm < Op (insts ! 0) then False
          else if Op (insts ! 1) \<noteq> VM_EVM vm then False
          else Op (insts ! (length insts - 1)) = OP_DATA_20 vm \<and>
               length (Data (insts ! (length insts - 1))) = 20)"

definition IsP2WScript :: "vmpkg \<Rightarrow> bytes \<Rightarrow> bool" where
  "IsP2WScript vm prog \<longleftrightarrow>
     IsP2WSHScript vm prog \<or> IsStraightforward vm prog \<or> IsP2ContractProgram vm prog"

text \<open>
  \<open>GetHashFromStandardProg\<close> returns the data of the last instruction; on a program
  with no instruction the index \<open>len(insts)-1\<close> is out of range and Go panics.
\<close>

definition GetHashFromStandardProg :: "vmpkg \<Rightarrow> bytes \<Rightarrow> error + bytes" where
  "GetHashFromStandardProg vm prog =
     (case ParseProgram vm prog of
        Inl err \<Rightarrow> Inl err
      | Inr insts \<Rightarrow>
          if insts = [] then Inl ErrPanic else Inr (Data (insts ! (length insts - 1))))"

section \<open>The account state\<close>

text \<open>
  The account state is go-ethereum's \<open>StateDB\<close>, a library outside the repository.
  The model keeps what the modelled code reads and writes of it: the balance of each
  20-byte address, an unbounded integer (\<open>big.Int\<close>). \<open>BytesToAddress\<close> keeps the
  last 20 bytes of a longer string and pads a shorter one with zeros on the left.
\<close>

type_synonym Address = bytes
type_synonym StateDB = "Address \<Rightarrow> int"

definition BytesToAddress :: "bytes \<Rightarrow> Address" where
  "BytesToAddress b =
     (if 20 < length b then drop (length b - 20) b else replicate (20 - length b) 0 @ b)"

definition GetBalance :: "StateDB \<Rightarrow> Address \<Rightarrow> int" where
  "GetBalance db addr = db addr"

definition AddBalance :: "StateDB \<Rightarrow> Address \<Rightarrow> int \<Rightarrow> StateDB" where
  "AddBalance db addr amount = db(addr := db addr + amount)"

definition SubBalance :: "StateDB \<Rightarrow> Address \<Rightarrow> int \<Rightarrow> StateDB" where
  "SubBalance db addr amount = db(addr := db addr - amount)"

text \<open>\<open>vm.CanTransfer\<close> (evm.go).\<close>

definition CanTransfer :: "StateDB \<Rightarrow> Address \<Rightarrow> int \<Rightarrow> bool" where
  "CanTransfer db addr amount \<longleftrightarrow> amount \<le> GetBalance db addr"

section \<open>The validation state machine (package validation)\<close>

text \<open>
  \<open>ValidationState\<close>: the chain handle is only handed on to the interpreter and is
  left out. In Go \<open>vs2 := *vs\<close> copies the struct, but \<open>stateDB\<close>, \<open>gasStatus\<close> and
  \<open>cache\<close> are pointers or maps and stay shared: what a callee does to them is seen
  by the caller. \<open>shared vs vs2\<close> is the caller's state after a call that ran on the
  copy and left it as \<open>vs2\<close>.
\<close>

record ValidationState =
  stateDB :: StateDB
  block :: "Block option"
  tx :: Tx
  gasStatus :: GasState
  entryID :: Hash
  sourcePos :: u64
  destPos :: u64
  cache :: "Hash \<rightharpoonup> error option"

definition shared :: "ValidationState \<Rightarrow> ValidationState \<Rightarrow> ValidationState" where
  "shared vs vs2 = vs\<lparr>stateDB := stateDB vs2, gasStatus := gasStatus vs2, cache := cache vs2\<rparr>"

text \<open>
  What the validator calls and the source files do not define, as parameters:
  the package \<open>vm\<close> above; \<open>bc.EntryID\<close> (the content hash of an entry, also of the
  nil entry); \<open>AssetDefinition.ComputeAssetID\<close>; \<open>vm.Verify\<close> run on the context
  that \<open>NewTxVMContext\<close> builds for an entry, a program and its arguments, which
  returns an error or nil, the gas left and the account state as the run leaves it;
  the configuration switch \<open>config.SupportBalanceInStateDB\<close>; and the order in which
  Go's \<open>range\<close> visits the keys of the parity map, which the language leaves open.
\<close>

record Env =
  vmOf :: vmpkg
  EntryID :: "Entry option \<Rightarrow> Hash"
  ComputeAssetID :: "AssetDefinition \<Rightarrow> AssetID"
  Verify :: "ValidationState \<Rightarrow> Entry \<Rightarrow> Program \<Rightarrow> bytes list \<Rightarrow> i64
               \<Rightarrow> error option \<times> i64 \<times> StateDB"
  SupportBalanceInStateDB :: bool
  rangeOrder :: "(AssetID \<rightharpoonup> i64) \<Rightarrow> AssetID list"

text \<open>
  A run of \<open>checkValid\<close> either returns an error or nil with the state it leaves, or
  does not return: the recursion through value sources has no bound of its own, and
  the model bounds it by fuel, \<open>None\<close> standing for a run that the fuel did not cover.
\<close>

type_synonym res = "(error option \<times> ValidationState) option"

subsection \<open>checkValidDest\<close>

text \<open>The switch on the entry a destination refers to: the source that must refer back.\<close>

definition destSrc :: "Entry \<Rightarrow> u64 \<Rightarrow> error + ValueSource option" where
  "destSrc e pos =
     (case e of
        OutputE r \<Rightarrow> if pos \<noteq> 0 then Inl ErrPosition else Inr (Output.Source r)
      | RetirementE r \<Rightarrow> if pos \<noteq> 0 then Inl ErrPosition else Inr (Retirement.Source r)
      | DepositE r \<Rightarrow> if pos \<noteq> 0 then Inl ErrPosition else Inr (Deposit.Source r)
      | MuxE r \<Rightarrow>
          if length (Sources r) \<le> unat pos then Inl ErrPosition
          else Inr (Sources r ! unat pos)
      | _ \<Rightarrow> Inl ErrEntryType)"

text \<open>
  The three checks that close \<open>checkValidDest\<close>, on the source found. A nil source
  is dereferenced, which panics.
\<close>

definition destRefersBack :: "ValidationState \<Rightarrow> ValueDestination \<Rightarrow> ValueSource option \<Rightarrow> error option" where
  "destRefersBack vs d src =
     (case src of
        None \<Rightarrow> Some ErrPanic
      | Some s \<Rightarrow>
          if ValueSource.Ref s \<noteq> Some (entryID vs) then Some ErrMismatchedReference
          else if ValueSource.Position s \<noteq> destPos vs then Some ErrMismatchedPosition
          else (case AssetAmount_Equal (ValueSource.Value s) (ValueDestination.Value d) of
                  None \<Rightarrow> Some ErrMissingField
                | Some eq \<Rightarrow> if \<not> eq then Some ErrMismatchedValue else None))"

definition checkValidDest :: "ValidationState \<Rightarrow> ValueDestination option \<Rightarrow> error option" where
  "checkValidDest vs vd =
     (case vd of
        None \<Rightarrow> Some ErrMissingField
      | Some d \<Rightarrow>
     (case ValueDestination.Ref d of
        None \<Rightarrow> Some ErrMissingField
      | Some r \<Rightarrow>
     (case ValueDestination.Value d of
        None \<Rightarrow> Some ErrMissingField
      | Some v \<Rightarrow>
     (case AssetId v of
        None \<Rightarrow> Some ErrMissingField
      | Some _ \<Rightarrow>
     (case lookupEntry (tx vs) r of
        None \<Rightarrow> Some ErrMissingEntry
      | Some e \<Rightarrow>
     (case destSrc e (ValueDestination.Position d) of
        Inl err \<Rightarrow> Some err
      | Inr src \<Rightarrow> destRefersBack vs d src))))))"

subsection \<open>checkValidSrc\<close>

text \<open>The switch on the entry a source refers to: the destination that must refer back.\<close>

definition srcDest :: "Entry \<Rightarrow> u64 \<Rightarrow> error + ValueDestination option" where
  "srcDest e pos =
     (case e of
        CoinbaseE r \<Rightarrow> if pos \<noteq> 0 then Inl ErrPosition else Inr (Coinbase.WitnessDestination r)
      | IssuanceE r \<Rightarrow> if pos \<noteq> 0 then Inl ErrPosition else Inr (Issuance.WitnessDestination r)
      | SpendE r \<Rightarrow> if pos \<noteq> 0 then Inl ErrPosition else Inr (Spend.WitnessDestination r)
      | CreationE r \<Rightarrow> if pos \<noteq> 0 then Inl ErrPosition else Inr (Creation.WitnessDestination r)
      | CallE r \<Rightarrow> if pos \<noteq> 0 then Inl ErrPosition else Inr (Call.WitnessDestination r)
      | ContractE r \<Rightarrow> if pos \<noteq> 0 then Inl ErrPosition else Inr (Contract.WitnessDestination r)
      | WithdrawalE r \<Rightarrow>
          if pos \<noteq> 0 then Inl ErrPosition else Inr (Withdrawal.WitnessDestination r)
      | MuxE r \<Rightarrow>
          if length (WitnessDestinations r) \<le> unat pos then Inl ErrPosition
          else Inr (WitnessDestinations r ! unat pos)
      | _ \<Rightarrow> Inl ErrEntryType)"

text \<open>The three checks that close \<open>checkValidSrc\<close>, on the destination found.\<close>

definition srcRefersBack :: "ValidationState \<Rightarrow> ValueSource \<Rightarrow> ValueDestination option \<Rightarrow> error option" where
  "srcRefersBack vstate s dest =
     (case dest of
        None \<Rightarrow> Some ErrPanic
      | Some d \<Rightarrow>
          if ValueDestination.Ref d \<noteq> Some (entryID vstate) then Some ErrMismatchedReference
          else if ValueDestination.Position d \<noteq> sourcePos vstate then Some ErrMismatchedPosition
          else (case AssetAmount_Equal (ValueDestination.Value d) (ValueSource.Value s) of
                  None \<Rightarrow> Some ErrMissingField
                | Some eq \<Rightarrow> if \<not> eq then Some ErrMismatchedValue else None))"

text \<open>
  \<open>checkValidSrc\<close> calls \<open>checkValid\<close> on the entry the source refers to; the model
  takes that call as the argument \<open>rec\<close>, which \<open>checkValid\<close> below ties to itself.
\<close>

definition checkValidSrc ::
  "(ValidationState \<Rightarrow> Entry option \<Rightarrow> res) \<Rightarrow> ValidationState \<Rightarrow> ValueSource option \<Rightarrow> res" where
  "checkValidSrc rec vstate vs =
     (case vs of
        None \<Rightarrow> Some (Some ErrMissingField, vstate)
      | Some s \<Rightarrow>
     (case ValueSource.Ref s of
        None \<Rightarrow> Some (Some ErrMissingField, vstate)
      | Some r \<Rightarrow>
     (case ValueSource.Value s of
        None \<Rightarrow> Some (Some ErrMissingField, vstate)
      | Some v \<Rightarrow>
     (case AssetId v of
        None \<Rightarrow> Some (Some ErrMissingField, vstate)
      | Some _ \<Rightarrow>
     (case lookupEntry (tx vstate) r of
        None \<Rightarrow> Some (Some ErrMissingEntry, vstate)
      | Some e \<Rightarrow>
     (case rec (vstate\<lparr>entryID := r\<rparr>) (Some e) of
        None \<Rightarrow> None
      | Some (Some err, vstate2) \<Rightarrow> Some (Some err, shared vstate vstate2)
      | Some (None, vstate2) \<Rightarrow>
          (case srcDest e (ValueSource.Position s) of
             Inl err \<Rightarrow> Some (Some err, shared vstate vstate2)
           | Inr dest \<Rightarrow> Some (srcRefersBack vstate s dest, shared vstate vstate2))))))))"

subsection \<open>The entry types' cases of checkValid\<close>

text \<open>
  A witness program is run and the gas it leaves is booked: the pair
  \<open>vm.Verify(NewTxVMContext(vs, e, prog, args), vs.gasStatus.GasLeft)\<close> and
  \<open>vs.gasStatus.updateUsage(gasLeft)\<close> that every input case repeats.
\<close>

definition verifyAndUpdate ::
  "Env \<Rightarrow> ValidationState \<Rightarrow> Entry \<Rightarrow> Program \<Rightarrow> bytes list \<Rightarrow> error option \<times> ValidationState" where
  "verifyAndUpdate env vs e prog args =
     (let (err, gasLeft, db) = Verify env vs e prog args (GasLeft (gasStatus vs));
          vs1 = vs\<lparr>stateDB := db\<rparr>
      in case err of
           Some x \<Rightarrow> (Some x, vs1)
         | None \<Rightarrow>
             let (err2, g) = updateUsage (gasStatus vs1) gasLeft
             in (err2, vs1\<lparr>gasStatus := g\<rparr>))"

text \<open>\<open>new(big.Int).SetUint64(n).Bytes()\<close>: big-endian, no leading zero byte.\<close>

fun bigEndianBytes :: "nat \<Rightarrow> bytes" where
  "bigEndianBytes n = (if n = 0 then [] else bigEndianBytes (n div 256) @ [of_nat (n mod 256)])"

declare bigEndianBytes.simps [simp del]

paragraph \<open>TxHeader\<close>

fun checkResults ::
  "(ValidationState \<Rightarrow> Entry option \<Rightarrow> res) \<Rightarrow> ValidationState \<Rightarrow> Hash list \<Rightarrow> res" where
  "checkResults rec vs [] = Some (None, vs)"
| "checkResults rec vs (resID # rest) =
     (case rec (vs\<lparr>entryID := resID\<rparr>) (lookupEntry (tx vs) resID) of
        None \<Rightarrow> None
      | Some (Some err, vs2) \<Rightarrow> Some (Some err, shared vs vs2)
      | Some (None, vs2) \<Rightarrow> checkResults rec (shared vs vs2) rest)"

definition checkTxHeader ::
  "(ValidationState \<Rightarrow> Entry option \<Rightarrow> res) \<Rightarrow> ValidationState \<Rightarrow> TxHeader \<Rightarrow> res" where
  "checkTxHeader rec vs e =
     (case checkResults rec vs (ResultIds e) of
        None \<Rightarrow> None
      | Some (Some err, vs1) \<Rightarrow> Some (Some err, vs1)
      | Some (None, vs1) \<Rightarrow>
          if Version e = 1 \<and> ResultIds e = [] then
            (let muxId = MuxId (Header (tx vs1))
             in case rec (vs1\<lparr>entryID := muxId\<rparr>) (lookupEntry (tx vs1) muxId) of
                  None \<Rightarrow> None
                | Some (err, vs2) \<Rightarrow> Some (err, shared vs1 vs2))
          else Some (None, vs1))"

paragraph \<open>Mux\<close>

text \<open>
  The parity map: the sources add to their asset's entry, the destinations subtract.
  A nil source, value or asset id is dereferenced untested (a panic). The amount is
  compared with \<open>math.MaxInt64\<close> as a \<open>uint64\<close>.
\<close>

fun muxSourcesParity ::
  "ValueSource option list \<Rightarrow> (AssetID \<rightharpoonup> i64) \<Rightarrow> error + (AssetID \<rightharpoonup> i64)" where
  "muxSourcesParity [] parity = Inr parity"
| "muxSourcesParity (src # rest) parity =
     (case src of
        None \<Rightarrow> Inl ErrPanic
      | Some s \<Rightarrow>
     (case ValueSource.Value s of
        None \<Rightarrow> Inl ErrPanic
      | Some v \<Rightarrow>
          if MaxInt64 < Amount v then Inl ErrOverflow
          else
     (case AssetId v of
        None \<Rightarrow> Inl ErrPanic
      | Some a \<Rightarrow>
          (let (acc, ok) = AddInt64 (case parity a of None \<Rightarrow> 0 | Some x \<Rightarrow> x) (Amount v)
           in if \<not> ok then Inl ErrOverflow
              else muxSourcesParity rest (parity(a \<mapsto> acc))))))"

fun muxDestsParity ::
  "ValueDestination option list \<Rightarrow> (AssetID \<rightharpoonup> i64) \<Rightarrow> error + (AssetID \<rightharpoonup> i64)" where
  "muxDestsParity [] parity = Inr parity"
| "muxDestsParity (dest # rest) parity =
     (case dest of
        None \<Rightarrow> Inl ErrPanic
      | Some d \<Rightarrow>
     (case ValueDestination.Value d of
        None \<Rightarrow> Inl ErrPanic
      | Some v \<Rightarrow>
     (case AssetId v of
        None \<Rightarrow> Inl ErrPanic
      | Some a \<Rightarrow>
     (case parity a of
        None \<Rightarrow> Inl ErrNoSource
      | Some acc \<Rightarrow>
          if MaxInt64 < Amount v then Inl ErrOverflow
          else
            (let (diff, ok) = SubInt64 acc (Amount v)
             in if \<not> ok then Inl ErrOverflow
                else muxDestsParity rest (parity(a \<mapsto> diff)))))))"

text \<open>
  The loop over the parity map, in the order \<open>keys\<close>: the native asset's amount goes
  to \<open>setGas\<close>, any other asset's amount must be zero.
\<close>

fun muxBalance ::
  "(AssetID \<rightharpoonup> i64) \<Rightarrow> i64 \<Rightarrow> AssetID list \<Rightarrow> GasState \<Rightarrow> error option \<times> GasState" where
  "muxBalance parity txSize [] g = (None, g)"
| "muxBalance parity txSize (assetID # keys) g =
     (case parity assetID of
        None \<Rightarrow> muxBalance parity txSize keys g
      | Some amount \<Rightarrow>
          if assetID = NativeAssetID then
            (case setGas g amount txSize of
               (Some err, g1) \<Rightarrow> (Some err, g1)
             | (None, g1) \<Rightarrow> muxBalance parity txSize keys g1)
          else if amount \<noteq> 0 then (Some ErrUnbalanced, g)
          else muxBalance parity txSize keys g)"

fun checkGasInputs ::
  "(ValidationState \<Rightarrow> Entry option \<Rightarrow> res) \<Rightarrow> ValidationState \<Rightarrow> Hash list \<Rightarrow> res" where
  "checkGasInputs rec vs [] = Some (None, vs)"
| "checkGasInputs rec vs (inputID # rest) =
     (case lookupEntry (tx vs) inputID of
        None \<Rightarrow> Some (Some ErrMissingEntry, vs)
      | Some e \<Rightarrow>
     (case rec (vs\<lparr>entryID := inputID\<rparr>) (Some e) of
        None \<Rightarrow> None
      | Some (Some err, vs2) \<Rightarrow> Some (Some err, shared vs vs2)
      | Some (None, vs2) \<Rightarrow> checkGasInputs rec (shared vs vs2) rest))"

fun checkMuxDests :: "ValidationState \<Rightarrow> nat \<Rightarrow> ValueDestination option list \<Rightarrow> error option" where
  "checkMuxDests vs i [] = None"
| "checkMuxDests vs i (dest # rest) =
     (case checkValidDest (vs\<lparr>destPos := of_nat i\<rparr>) dest of
        Some err \<Rightarrow> Some err
      | None \<Rightarrow> checkMuxDests vs (Suc i) rest)"

fun checkMuxSources ::
  "(ValidationState \<Rightarrow> Entry option \<Rightarrow> res) \<Rightarrow> ValidationState \<Rightarrow> nat
     \<Rightarrow> ValueSource option list \<Rightarrow> res" where
  "checkMuxSources rec vs i [] = Some (None, vs)"
| "checkMuxSources rec vs i (src # rest) =
     (case checkValidSrc rec (vs\<lparr>sourcePos := of_nat i\<rparr>) src of
        None \<Rightarrow> None
      | Some (Some err, vs2) \<Rightarrow> Some (Some err, shared vs vs2)
      | Some (None, vs2) \<Rightarrow> checkMuxSources rec (shared vs vs2) (Suc i) rest)"

text \<open>The first three loops of the Mux case: the parity map and its check.\<close>

definition parityMap :: "Mux \<Rightarrow> error + (AssetID \<rightharpoonup> i64)" where
  "parityMap e =
     (case muxSourcesParity (Sources e) Map.empty of
        Inl err \<Rightarrow> Inl err
      | Inr p1 \<Rightarrow> muxDestsParity (WitnessDestinations e) p1)"

definition muxParity :: "Env \<Rightarrow> ValidationState \<Rightarrow> Mux \<Rightarrow> error option \<times> ValidationState" where
  "muxParity env vs e =
     (case parityMap e of
        Inl err \<Rightarrow> (Some err, vs)
      | Inr parity \<Rightarrow>
          (let (err, g) = muxBalance parity (SerializedSize (Header (tx vs)))
                            (rangeOrder env parity) (gasStatus vs)
           in (err, vs\<lparr>gasStatus := g\<rparr>)))"

definition checkMux ::
  "Env \<Rightarrow> (ValidationState \<Rightarrow> Entry option \<Rightarrow> res) \<Rightarrow> ValidationState \<Rightarrow> Mux \<Rightarrow> res" where
  "checkMux env rec vs e =
     (case muxParity env vs e of
        (Some err, vs1) \<Rightarrow> Some (Some err, vs1)
      | (None, vs1) \<Rightarrow>
     (case checkGasInputs rec vs1 (GasInputIDs (tx vs1)) of
        None \<Rightarrow> None
      | Some (Some err, vs2) \<Rightarrow> Some (Some err, vs2)
      | Some (None, vs2) \<Rightarrow>
     (case checkMuxDests vs2 0 (WitnessDestinations e) of
        Some err \<Rightarrow> Some (Some err, vs2)
      | None \<Rightarrow>
     (case (if GasInputIDs (tx vs2) \<noteq> []
            then setGasValid (gasStatus vs2) else (None, gasStatus vs2)) of
        (Some err, g) \<Rightarrow> Some (Some err, vs2\<lparr>gasStatus := g\<rparr>)
      | (None, g) \<Rightarrow> checkMuxSources rec (vs2\<lparr>gasStatus := g\<rparr>) 0 (Sources e)))))"

paragraph \<open>Output, Retirement, Deposit\<close>

text \<open>
  With \<open>config.SupportBalanceInStateDB\<close> an output (a spend) of the native asset is
  credited to (debited from) the address read from its control program.
\<close>

definition balanceAddress :: "Env \<Rightarrow> Output \<Rightarrow> error + (Address \<times> int) option" where
  "balanceAddress env out =
     (case Output.Source out of
        None \<Rightarrow> Inl ErrPanic
      | Some s \<Rightarrow>
     (case ValueSource.Value s of
        None \<Rightarrow> Inl ErrPanic
      | Some v \<Rightarrow>
     (case AssetId v of
        None \<Rightarrow> Inl ErrPanic
      | Some a \<Rightarrow>
          if a \<noteq> NativeAssetID then Inr None
          else (case GetHashFromStandardProg (vmOf env) (Code (Output.ControlProgram out)) of
                  Inl err \<Rightarrow> Inl err
                | Inr h \<Rightarrow> Inr (Some (BytesToAddress h, uint (Amount v)))))))"

definition checkOutput ::
  "Env \<Rightarrow> (ValidationState \<Rightarrow> Entry option \<Rightarrow> res) \<Rightarrow> ValidationState \<Rightarrow> Output \<Rightarrow> res" where
  "checkOutput env rec vs e =
     (case checkValidSrc rec (vs\<lparr>sourcePos := 0\<rparr>) (Output.Source e) of
        None \<Rightarrow> None
      | Some (Some err, vs2) \<Rightarrow> Some (Some err, shared vs vs2)
      | Some (None, vs2) \<Rightarrow>
          (let vs1 = shared vs vs2
           in if SupportBalanceInStateDB env then
                (case balanceAddress env e of
                   Inl err \<Rightarrow> Some (Some err, vs1)
                 | Inr None \<Rightarrow> Some (None, vs1)
                 | Inr (Some (addr, amount)) \<Rightarrow>
                     Some (None, vs1\<lparr>stateDB := AddBalance (stateDB vs1) addr amount\<rparr>))
              else Some (None, vs1)))"

definition checkRetirement ::
  "(ValidationState \<Rightarrow> Entry option \<Rightarrow> res) \<Rightarrow> ValidationState \<Rightarrow> Retirement \<Rightarrow> res" where
  "checkRetirement rec vs e =
     (case checkValidSrc rec (vs\<lparr>sourcePos := 0\<rparr>) (Retirement.Source e) of
        None \<Rightarrow> None
      | Some (err, vs2) \<Rightarrow> Some (err, shared vs vs2))"

definition checkDeposit ::
  "Env \<Rightarrow> (ValidationState \<Rightarrow> Entry option \<Rightarrow> res) \<Rightarrow> ValidationState \<Rightarrow> Deposit \<Rightarrow> res" where
  "checkDeposit env rec vs e =
     (case checkValidSrc rec (vs\<lparr>sourcePos := 0\<rparr>) (Deposit.Source e) of
        None \<Rightarrow> None
      | Some (Some err, vs2) \<Rightarrow> Some (Some err, shared vs vs2)
      | Some (None, vs2) \<Rightarrow>
          (let vs1 = shared vs vs2
           in if IsOpDeposit (vmOf env) (Code (Deposit.ControlProgram e))
              then Some (verifyAndUpdate env vs1 (DepositE e) (Deposit.ControlProgram e) [])
              else Some (None, vs1)))"

paragraph \<open>Issuance\<close>

definition checkIssuance :: "Env \<Rightarrow> ValidationState \<Rightarrow> Issuance \<Rightarrow> error option \<times> ValidationState" where
  "checkIssuance env vs e =
     (case Issuance.Value e of
        None \<Rightarrow> (Some ErrPanic, vs)
      | Some v \<Rightarrow>
     (case AssetId v of
        None \<Rightarrow> (Some ErrPanic, vs)
      | Some a \<Rightarrow>
          if ComputeAssetID env (WitnessAssetDefinition e) \<noteq> a then (Some ErrMismatchedAssetID, vs)
          else
     (case verifyAndUpdate env vs (IssuanceE e)
             (IssuanceProgram (WitnessAssetDefinition e)) (Issuance.WitnessArguments e) of
        (Some err, vs1) \<Rightarrow> (Some err, vs1)
      | (None, vs1) \<Rightarrow>
          (checkValidDest (vs1\<lparr>destPos := 0\<rparr>) (Issuance.WitnessDestination e), vs1))))"

paragraph \<open>Creation, Call, Contract\<close>

text \<open>
  The three cases run the \<open>From\<close> program and then, when the input program is of the
  matching hybrid kind, the input program on the arguments \<open>from\<close>, nonce and (for a
  call or a contract) the callee.
\<close>

definition checkHybrid ::
  "Env \<Rightarrow> ValidationState \<Rightarrow> Entry \<Rightarrow> Program \<Rightarrow> bytes list \<Rightarrow> bool \<Rightarrow> Program \<Rightarrow> u64
     \<Rightarrow> bytes list \<Rightarrow> error option \<times> ValidationState" where
  "checkHybrid env vs e fromProg witnessArgs isOp inputProg nonce callee =
     (case verifyAndUpdate env vs e fromProg witnessArgs of
        (Some err, vs1) \<Rightarrow> (Some err, vs1)
      | (None, vs1) \<Rightarrow>
          if isOp then
            (case GetHashFromStandardProg (vmOf env) (Code fromProg) of
               Inl err \<Rightarrow> (Some err, vs1)
             | Inr fromHash \<Rightarrow>
                 verifyAndUpdate env vs1 e inputProg
                   ([fromHash, bigEndianBytes (unat nonce)] @ callee))
          else (None, vs1))"

definition checkCreation :: "Env \<Rightarrow> ValidationState \<Rightarrow> Creation \<Rightarrow> error option \<times> ValidationState" where
  "checkCreation env vs e =
     checkHybrid env vs (CreationE e) (Creation.From e) (Creation.WitnessArguments e)
       (IsOpCreate (vmOf env) (Code (Creation.Input e))) (Creation.Input e) (Creation.Nonce e) []"

definition checkCall :: "Env \<Rightarrow> ValidationState \<Rightarrow> Call \<Rightarrow> error option \<times> ValidationState" where
  "checkCall env vs e =
     checkHybrid env vs (CallE e) (Call.From e) (Call.WitnessArguments e)
       (IsOpCall (vmOf env) (Code (Call.Input e))) (Call.Input e) (Call.Nonce e)
       [Code (Call.To e)]"

definition checkContract :: "Env \<Rightarrow> ValidationState \<Rightarrow> Contract \<Rightarrow> error option \<times> ValidationState" where
  "checkContract env vs e =
     checkHybrid env vs (ContractE e) (Contract.From e) (Contract.WitnessArguments e)
       (IsOpContract (vmOf env) (Code (Contract.Input e))) (Contract.Input e) (Contract.Nonce e)
       [Contract.To e]"

paragraph \<open>Withdrawal\<close>

definition checkWithdrawal :: "Env \<Rightarrow> ValidationState \<Rightarrow> Withdrawal \<Rightarrow> error option \<times> ValidationState" where
  "checkWithdrawal env vs e =
     (case verifyAndUpdate env vs (WithdrawalE e) (Withdrawal.ControlProgram e)
             (Withdrawal.WitnessArguments e) of
        (Some err, vs1) \<Rightarrow> (Some err, vs1)
      | (None, vs1) \<Rightarrow>
     (case checkValidDest (vs1\<lparr>destPos := 0\<rparr>) (Withdrawal.WitnessDestination e) of
        Some err \<Rightarrow> (Some err, vs1)
      | None \<Rightarrow>
          if IsOpWithdraw (vmOf env) (Code (WithdrawProgram e))
          then verifyAndUpdate env vs1 (WithdrawalE e) (WithdrawProgram e) []
          else (None, vs1)))"

paragraph \<open>Spend\<close>

definition checkSpend :: "Env \<Rightarrow> ValidationState \<Rightarrow> Spend \<Rightarrow> error option \<times> ValidationState" where
  "checkSpend env vs e =
     (case SpentOutputId e of
        None \<Rightarrow> (Some ErrMissingField, vs)
      | Some outID \<Rightarrow>
     (case Tx_Output (tx vs) outID of
        Inl err \<Rightarrow> (Some err, vs)
      | Inr spentOutput \<Rightarrow>
     (case verifyAndUpdate env vs (SpendE e) (Output.ControlProgram spentOutput)
             (Spend.WitnessArguments e) of
        (Some err, vs1) \<Rightarrow> (Some err, vs1)
      | (None, vs1) \<Rightarrow>
     (case (Output.Source spentOutput, Spend.WitnessDestination e) of
        (Some src, Some dest) \<Rightarrow>
          (case AssetAmount_Equal (ValueSource.Value src) (ValueDestination.Value dest) of
             None \<Rightarrow> (Some (ErrOther ''empty asset amount''), vs1)
           | Some eq \<Rightarrow>
               if \<not> eq then (Some ErrMismatchedValue, vs1)
               else
          (case checkValidDest (vs1\<lparr>destPos := 0\<rparr>) (Spend.WitnessDestination e) of
             Some err \<Rightarrow> (Some err, vs1)
           | None \<Rightarrow>
               if SupportBalanceInStateDB env then
                 (case balanceAddress env spentOutput of
                    Inl err \<Rightarrow> (Some err, vs1)
                  | Inr None \<Rightarrow> (None, vs1)
                  | Inr (Some (addr, amount)) \<Rightarrow>
                      (None, vs1\<lparr>stateDB := SubBalance (stateDB vs1) addr amount\<rparr>))
               else (None, vs1)))
      | _ \<Rightarrow> (Some ErrPanic, vs1)))))"

paragraph \<open>Coinbase\<close>

text \<open>
  \<open>vs.block.Transactions[0] != vs.tx\<close> compares two pointers, that is, the addresses
  of the two transactions. A nil \<open>Arbitrary\<close> is the empty byte string.
\<close>

definition checkCoinbase :: "ValidationState \<Rightarrow> Coinbase \<Rightarrow> error option \<times> ValidationState" where
  "checkCoinbase vs e =
     (if (case block vs of
            None \<Rightarrow> True
          | Some b \<Rightarrow> Transactions b = [] \<or> Addr (Transactions b ! 0) \<noteq> Addr (tx vs))
      then (Some ErrWrongCoinbaseTransaction, vs)
      else
     (case Coinbase.WitnessDestination e of
        None \<Rightarrow> (Some ErrPanic, vs)
      | Some d \<Rightarrow>
     (case ValueDestination.Value d of
        None \<Rightarrow> (Some ErrPanic, vs)
      | Some v \<Rightarrow>
     (case AssetId v of
        None \<Rightarrow> (Some ErrPanic, vs)
      | Some a \<Rightarrow>
          if a \<noteq> NativeAssetID then (Some ErrWrongCoinbaseAsset, vs)
          else if CoinbaseArbitrarySizeLimit < length (Arbitrary e)
          then (Some ErrCoinbaseArbitraryOversize, vs)
          else
     (case checkValidDest (vs\<lparr>destPos := 0\<rparr>) (Coinbase.WitnessDestination e) of
        Some err \<Rightarrow> (Some err, vs)
      | None \<Rightarrow> (None, vs\<lparr>gasStatus := (gasStatus vs)\<lparr>GasValid := True\<rparr>\<rparr>))))))"

subsection \<open>checkValid\<close>

text \<open>
  The type switch of \<open>checkValid\<close>. A nil entry (an id that the entry map does not
  hold) falls to the default case.
\<close>

definition checkEntry ::
  "Env \<Rightarrow> (ValidationState \<Rightarrow> Entry option \<Rightarrow> res) \<Rightarrow> ValidationState \<Rightarrow> Entry option \<Rightarrow> res" where
  "checkEntry env rec vs e =
     (case e of
        None \<Rightarrow> Some (Some (ErrOther ''entry has unexpected type''), vs)
      | Some (TxHeaderE h) \<Rightarrow> checkTxHeader rec vs h
      | Some (MuxE m) \<Rightarrow> checkMux env rec vs m
      | Some (OutputE out) \<Rightarrow> checkOutput env rec vs out
      | Some (RetirementE r) \<Rightarrow> checkRetirement rec vs r
      | Some (IssuanceE i) \<Rightarrow> Some (checkIssuance env vs i)
      | Some (CreationE c) \<Rightarrow> Some (checkCreation env vs c)
      | Some (CallE c) \<Rightarrow> Some (checkCall env vs c)
      | Some (ContractE c) \<Rightarrow> Some (checkContract env vs c)
      | Some (DepositE d) \<Rightarrow> checkDeposit env rec vs d
      | Some (WithdrawalE w) \<Rightarrow> Some (checkWithdrawal env vs w)
      | Some (SpendE sp) \<Rightarrow> Some (checkSpend env vs sp)
      | Some (CoinbaseE c) \<Rightarrow> Some (checkCoinbase vs c))"

text \<open>
  One call of \<open>checkValid\<close>: a memoized result is returned as it is; otherwise the
  entry is checked and the deferred function stores the result under the entry's id.
\<close>

definition checkValidStep ::
  "Env \<Rightarrow> (ValidationState \<Rightarrow> Entry option \<Rightarrow> res) \<Rightarrow> ValidationState \<Rightarrow> Entry option \<Rightarrow> res" where
  "checkValidStep env rec vs e =
     (let eid = EntryID env e
      in case cache vs eid of
           Some err \<Rightarrow> Some (err, vs)
         | None \<Rightarrow>
             (case checkEntry env rec vs e of
                None \<Rightarrow> None
              | Some (err, vs1) \<Rightarrow> Some (err, vs1\<lparr>cache := (cache vs1)(eid \<mapsto> err)\<rparr>)))"

primrec checkValid :: "Env \<Rightarrow> nat \<Rightarrow> ValidationState \<Rightarrow> Entry option \<Rightarrow> res" where
  "checkValid env 0 vs e = None"
| "checkValid env (Suc fuel) vs e = checkValidStep env (checkValid env fuel) vs e"

subsection \<open>The checks before the walk, and ValidateTx\<close>

fun standardGasInputs :: "vmpkg \<Rightarrow> Tx \<Rightarrow> Hash list \<Rightarrow> error option" where
  "standardGasInputs vm t [] = None"
| "standardGasInputs vm t (i # rest) =
     (case lookupEntry t i of
        None \<Rightarrow> Some ErrMissingEntry
      | Some (SpendE spend) \<Rightarrow>
          (case SpentOutputId spend of
             None \<Rightarrow> Some ErrPanic
           | Some outID \<Rightarrow>
               (case Tx_Output t outID of
                  Inl err \<Rightarrow> Some err
                | Inr spentOutput \<Rightarrow>
                    if \<not> IsP2WScript vm (Code (Output.ControlProgram spentOutput))
                    then Some ErrNotStandardTx
                    else standardGasInputs vm t rest))
      | Some (WithdrawalE withdrawal) \<Rightarrow>
          if \<not> IsP2WScript vm (Code (Withdrawal.ControlProgram withdrawal))
          then Some ErrNotStandardTx
          else standardGasInputs vm t rest
      | Some _ \<Rightarrow> Some ErrNotStandardTx)"

fun standardResults :: "vmpkg \<Rightarrow> Tx \<Rightarrow> Hash list \<Rightarrow> error option" where
  "standardResults vm t [] = None"
| "standardResults vm t (i # rest) =
     (case lookupEntry t i of
        None \<Rightarrow> Some ErrMissingEntry
      | Some (OutputE out) \<Rightarrow>
          (case Output.Source out of
             None \<Rightarrow> Some ErrPanic
           | Some s \<Rightarrow>
          (case ValueSource.Value s of
             None \<Rightarrow> Some ErrPanic
           | Some v \<Rightarrow>
          (case AssetId v of
             None \<Rightarrow> Some ErrPanic
           | Some a \<Rightarrow>
               if a \<noteq> NativeAssetID then standardResults vm t rest
               else if \<not> IsP2WScript vm (Code (Output.ControlProgram out))
               then Some ErrNotStandardTx
               else standardResults vm t rest)))
      | Some _ \<Rightarrow> standardResults vm t rest)"

definition checkStandardTx :: "vmpkg \<Rightarrow> Tx \<Rightarrow> error option" where
  "checkStandardTx vm t =
     (case standardGasInputs vm t (GasInputIDs t) of
        Some err \<Rightarrow> Some err
      | None \<Rightarrow> standardResults vm t (ResultIds (Header t)))"

definition checkTimeRange :: "Tx \<Rightarrow> Block \<Rightarrow> error option" where
  "checkTimeRange t b =
     (if TimeRange (Header t) = 0 then None
      else if TimeRange (Header t) < Height b then Some ErrBadTimeRange
      else None)"

text \<open>
  \<open>ValidateTx\<close> returns the validation state together with the error. The state
  starts with a zero \<open>GasState\<close> and an empty cache.
\<close>

definition newGasState :: GasState where
  "newGasState = \<lparr>AssetValue = 0, GasLeft = 0, GasUsed = 0, GasValid = False, StorageGas = 0\<rparr>"

definition newValidationState :: "Tx \<Rightarrow> Block \<Rightarrow> StateDB \<Rightarrow> ValidationState" where
  "newValidationState t b db =
     \<lparr>stateDB = db, block = Some b, tx = t, gasStatus = newGasState, entryID = ID t,
      sourcePos = 0, destPos = 0, cache = Map.empty\<rparr>"

definition ValidateTx ::
  "Env \<Rightarrow> nat \<Rightarrow> Tx \<Rightarrow> Block \<Rightarrow> StateDB \<Rightarrow> (ValidationState \<times> error option) option" where
  "ValidateTx env fuel t b db =
     (let vs = newValidationState t b db
      in if BlockVersion b = 1 \<and> Version (Header t) \<noteq> 1 then Some (vs, Some ErrTxVersion)
         else if SerializedSize (Header t) = 0 then Some (vs, Some ErrWrongTransactionSize)
         else (case checkTimeRange t b of
                 Some err \<Rightarrow> Some (vs, Some err)
               | None \<Rightarrow>
              (case checkStandardTx (vmOf env) t of
                 Some err \<Rightarrow> Some (vs, Some err)
               | None \<Rightarrow>
              (case checkValid env fuel vs (Some (TxHeaderE (Header t))) of
                 None \<Rightarrow> None
               | Some (err, vs1) \<Rightarrow> Some (vs1, err)))))"

section \<open>Block validation: the transactions of a block (ValidateBlock)\<close>

text \<open>
  After the header checks \<open>ValidateBlock\<close> validates the transactions in order on
  one account state. \<open>validate\<close> stands for \<open>ValidateTx\<close> on the block being
  validated: it returns the gas state, the error and the account state as the call
  leaves it. The loop returns from inside (\<open>Inl\<close>) with the transaction's error when
  the transaction is not gas-valid and with \<open>errOverBlockLimit\<close> when the gas sum
  passes the cap. \<open>errors.Wrapf\<close> is not among the source files. Modelled from the
  spec: wrapping adds a message to an error and keeps it as the root error, and
  wrapping nil gives nil, so what the loop returns at a transaction that is not
  gas-valid is that transaction's error, nil (\<open>None\<close>) when it has none. When it
  runs through (\<open>Inr\<close>) it yields the gas sum, the coinbase amount, the account state
  and the status flags. The last component is not in the source: it logs the
  \<open>GasUsed\<close> of every transaction the loop went through, for the theorems to speak of.
\<close>

type_synonym validateFn = "Tx \<Rightarrow> StateDB \<Rightarrow> GasState \<times> error option \<times> StateDB"

fun validateBlockTxs ::
  "validateFn \<Rightarrow> Tx list \<Rightarrow> u64 \<Rightarrow> u64 \<Rightarrow> StateDB \<Rightarrow> bool list \<Rightarrow> i64 list
     \<Rightarrow> error option + (u64 \<times> u64 \<times> StateDB \<times> bool list \<times> i64 list)" where
  "validateBlockTxs validate [] blockGasSum coinbaseAmount db status gasLog =
     Inr (blockGasSum, coinbaseAmount, db, status, gasLog)"
| "validateBlockTxs validate (t # rest) blockGasSum coinbaseAmount db status gasLog =
     (let revision = db;
          (gasStatus, err, db1) = validate t db
      in if \<not> GasValid gasStatus then Inl err
         else
           let gasOnlyTx = (err \<noteq> None);
               db2 = (if gasOnlyTx then revision else db1);
               coinbaseAmount1 = coinbaseAmount + AssetValue gasStatus;
               blockGasSum1 = blockGasSum + GasUsed gasStatus
           in if MaxBlockGas < blockGasSum1 then Inl (Some errOverBlockLimit)
              else validateBlockTxs validate rest blockGasSum1 coinbaseAmount1 db2
                     (status @ [gasOnlyTx]) (gasLog @ [GasUsed gasStatus]))"

section \<open>Block assembly (package mining)\<close>

text \<open>
  A pool entry \<open>TxDesc\<close>: the transaction, the time it was admitted and its fee.
  \<open>time.Time\<close> is an instant; \<open>Unix\<close> is its whole seconds since the epoch.
\<close>

datatype Time = Time (Unix: i64) (Nanosecond: nat)

record TxDesc =
  TxOf :: Tx
  Added :: Time
  Fee :: u64

text \<open>\<open>byTime.Less\<close> (sort.go), on two pool entries.\<close>

definition byTime_Less :: "TxDesc \<Rightarrow> TxDesc \<Rightarrow> bool" where
  "byTime_Less a b \<longleftrightarrow> Unix (Added a) <s Unix (Added b)"

text \<open>
  \<open>sort.Sort\<close> is Go's library. On a slice shorter than 12 elements it runs insertion
  sort: each element moves left while it is \<open>Less\<close> than its left neighbour, which
  on a sorted prefix puts it before the first element it is \<open>Less\<close> than. The model
  is this insertion sort. On longer slices the library promises a permutation sorted
  by \<open>Less\<close> and nothing about the order of elements that \<open>Less\<close> does not separate.
\<close>

fun insertByTime :: "TxDesc \<Rightarrow> TxDesc list \<Rightarrow> TxDesc list" where
  "insertByTime x [] = [x]"
| "insertByTime x (y # ys) = (if byTime_Less x y then x # y # ys else y # insertByTime x ys)"

definition sortByTime :: "TxDesc list \<Rightarrow> TxDesc list" where
  "sortByTime txs = foldl (\<lambda>pre x. insertByTime x pre) [] txs"

text \<open>
  The state of the loop of \<open>NewBlockTemplate\<close>: the UTXO view (of a type left open),
  the account state, the ids handed to \<open>txPool.RemoveTransaction\<close>, the running gas
  and fee sums, and the transactions appended to the block. \<open>included\<close> holds for
  each appended transaction its pool entry, its gas-only flag (the status recorded for
  it) and, beyond the source, the gas state \<open>ValidateTx\<close> returned for it.
\<close>

record 'v Assembly =
  view :: 'v
  poolRemoved :: "Hash list"
  accounts :: StateDB
  gasUsed :: u64
  txFee :: u64
  included :: "(TxDesc \<times> bool \<times> GasState) list"

text \<open>
  The collaborators of the loop, as parameters: \<open>Chain.GetTransactionsUtxo\<close> and
  \<open>UtxoViewpoint.ApplyTransaction\<close> (each returns whether it succeeded and the view
  as it leaves it) and \<open>ValidateTx\<close> on the block under construction.
\<close>

record 'v Collaborators =
  getTransactionsUtxo :: "'v \<Rightarrow> Tx \<Rightarrow> bool \<times> 'v"
  validateTx :: validateFn
  applyTransaction :: "'v \<Rightarrow> Tx \<Rightarrow> bool \<Rightarrow> bool \<times> 'v"

fun assemble :: "'v Collaborators \<Rightarrow> TxDesc list \<Rightarrow> 'v Assembly \<Rightarrow> 'v Assembly" where
  "assemble c [] a = a"
| "assemble c (txDesc # rest) a =
     (let t = TxOf txDesc;
          (found, view1) = getTransactionsUtxo c (view a) t
      in if \<not> found
         then assemble c rest (a\<lparr>view := view1, poolRemoved := poolRemoved a @ [ID t]\<rparr>)
         else
           let revision = accounts a;
               (gasStatus, err, db1) = validateTx c t (accounts a)
           in if err \<noteq> None \<and> \<not> GasValid gasStatus
              then assemble c rest
                     (a\<lparr>view := view1, poolRemoved := poolRemoved a @ [ID t],
                        accounts := revision\<rparr>)
              else
                let gasOnlyTx = (err \<noteq> None)
                in if MaxBlockGas < gasUsed a + GasUsed gasStatus
                   then a\<lparr>view := view1, accounts := db1\<rparr>
                   else
                     let (applied, view2) = applyTransaction c view1 t gasOnlyTx
                     in if \<not> applied
                        then assemble c rest
                               (a\<lparr>view := view2, poolRemoved := poolRemoved a @ [ID t],
                                  accounts := revision\<rparr>)
                        else
                          let a1 = a\<lparr>view := view2,
                                      accounts := (if gasOnlyTx then revision else db1),
                                      gasUsed := gasUsed a + GasUsed gasStatus,
                                      txFee := txFee a + Fee txDesc,
                                      included := included a @ [(txDesc, gasOnlyTx, gasStatus)]\<rparr>
                          in if gasUsed a1 = MaxBlockGas then a1 else assemble c rest a1)"

text \<open>
  \<open>NewBlockTemplate\<close> up to the end of its loop: the pool's transactions, in the
  order \<open>txPool.GetTransactions\<close> returned them, are sorted and run through the loop
  from zero sums. The coinbase transaction built afterwards pays
  \<open>BlockSubsidy\<close> of the next height plus the fees.
\<close>

definition newAssembly :: "'v \<Rightarrow> StateDB \<Rightarrow> 'v Assembly" where
  "newAssembly v db =
     \<lparr>view = v, poolRemoved = [], accounts = db, gasUsed = 0, txFee = 0, included = []\<rparr>"

definition NewBlockTemplate ::
  "'v Collaborators \<Rightarrow> TxDesc list \<Rightarrow> 'v \<Rightarrow> StateDB \<Rightarrow> 'v Assembly" where
  "NewBlockTemplate c txs v db = assemble c (sortByTime txs) (newAssembly v db)"

definition coinbaseAmount :: "'v Assembly \<Rightarrow> u64 \<Rightarrow> u64" where
  "coinbaseAmount a nextBlockHeight = txFee a + BlockSubsidy nextBlockHeight"

section \<open>The hybrid opcodes deposit and withdraw (vm/vaab.go)\<close>

text \<open>
  The part of \<open>virtualMachine\<close> the two opcodes touch: the run limit, the data stack
  (its top is the last element) and, of the context, the asset id, the amount and the
  account state. The context's asset id and amount are pointers that the opcodes
  dereference untested.
\<close>

record virtualMachine =
  runLimit :: i64
  dataStack :: "bytes list"
  ctxAssetID :: "bytes option"
  ctxAmount :: "u64 option"
  ctxStateDB :: StateDB

text \<open>
  Modelled from the spec: the interpreter's stack primitives \<open>pop\<close>, \<open>push\<close> and
  \<open>pushBool\<close> (protocol/vm/vm.go) are not among the source files. \<open>pop\<close> fails with
  DataStackUnderflow on an empty stack and otherwise takes the top item, refunding
  its cost (8 plus its length) to the run limit; \<open>push\<close> charges that cost, failing
  with RunLimitExceeded when the run limit does not cover it; \<open>pushBool\<close> pushes
  the byte 1 for true and the empty string for false.
\<close>

definition pop :: "virtualMachine \<Rightarrow> error + (bytes \<times> virtualMachine)" where
  "pop m =
     (if dataStack m = [] then Inl ErrDataStackUnderflow
      else Inr (last (dataStack m),
                m\<lparr>dataStack := butlast (dataStack m),
                  runLimit := runLimit m + 8 + of_nat (length (last (dataStack m)))\<rparr>))"

definition push :: "virtualMachine \<Rightarrow> bytes \<Rightarrow> error option \<times> virtualMachine" where
  "push m d =
     (let cost = 8 + of_nat (length d)
      in if runLimit m <s cost then (Some ErrRunLimitExceeded, m\<lparr>runLimit := 0\<rparr>)
         else (None, m\<lparr>runLimit := runLimit m - cost, dataStack := dataStack m @ [d]\<rparr>))"

definition pushBool :: "virtualMachine \<Rightarrow> bool \<Rightarrow> error option \<times> virtualMachine" where
  "pushBool m b = push m (if b then [1] else [])"

text \<open>\<open>new(big.Int).SetBytes(b).Uint64()\<close>: the big-endian value of \<open>b\<close>, its low 64 bits.\<close>

definition bigEndianValue :: "bytes \<Rightarrow> nat" where
  "bigEndianValue b = foldl (\<lambda>a x. a * 256 + unat x) 0 b"

definition bytesUint64 :: "bytes \<Rightarrow> u64" where
  "bytesUint64 b = of_nat (bigEndianValue b)"

text \<open>
  Modelled from the spec: \<open>AssetID.Bytes\<close> is not among the source files; it is the
  32 bytes of the id, each limb big-endian, so that the native asset's are
  \<open>0xFF\<dots>FF\<close>.
\<close>

definition u64Bytes :: "u64 \<Rightarrow> bytes" where
  "u64Bytes w = map (\<lambda>i. ucast (drop_bit (8 * (7 - i)) w)) [0..<8]"

fun AssetID_Bytes :: "AssetID \<Rightarrow> bytes" where
  "AssetID_Bytes (AssetID a b c d) = u64Bytes a @ u64Bytes b @ u64Bytes c @ u64Bytes d"

text \<open>
  The operands both opcodes pop: the address, the vm type and the version, the last
  two of which must be zero.
\<close>

definition popOperands :: "virtualMachine \<Rightarrow> (error + bytes) \<times> virtualMachine" where
  "popOperands m =
     (case pop m of
        Inl err \<Rightarrow> (Inl err, m)
      | Inr (address, m1) \<Rightarrow>
     (case pop m1 of
        Inl err \<Rightarrow> (Inl err, m1)
      | Inr (vmTypeBytes, m2) \<Rightarrow>
          if 0 < bytesUint64 vmTypeBytes then (Inl (ErrOther ''unknown vmType''), m2)
          else
     (case pop m2 of
        Inl err \<Rightarrow> (Inl err, m2)
      | Inr (versionBytes, m3) \<Rightarrow>
          if 0 < bytesUint64 versionBytes then (Inl (ErrOther ''unknown version number''), m3)
          else (Inr address, m3))))"

definition opDeposit :: "virtualMachine \<Rightarrow> error option \<times> virtualMachine" where
  "opDeposit m =
     (case (ctxAssetID m, ctxAmount m) of
        (Some assetID, Some assetAmount) \<Rightarrow>
          (case popOperands m of
             (Inl err, m3) \<Rightarrow> (Some err, m3)
           | (Inr address, m3) \<Rightarrow>
               (let caller = BytesToAddress address;
                    m4 = (if assetID = AssetID_Bytes NativeAssetID
                          then m3\<lparr>ctxStateDB := AddBalance (ctxStateDB m3) caller (uint assetAmount)\<rparr>
                          else m3)
                in pushBool m4 True))
      | _ \<Rightarrow> (Some ErrPanic, m))"

definition opWithdraw :: "virtualMachine \<Rightarrow> error option \<times> virtualMachine" where
  "opWithdraw m =
     (case (ctxAssetID m, ctxAmount m) of
        (Some assetID, Some assetAmount) \<Rightarrow>
          (case popOperands m of
             (Inl err, m3) \<Rightarrow> (Some err, m3)
           | (Inr address, m3) \<Rightarrow>
               (let caller = BytesToAddress address
                in if assetID = AssetID_Bytes NativeAssetID then
                     (if \<not> CanTransfer (ctxStateDB m3) caller (uint assetAmount)
                      then (Some ErrInsufficientBalance, m3)
                      else pushBool
                             (m3\<lparr>ctxStateDB := SubBalance (ctxStateDB m3) caller (uint assetAmount)\<rparr>)
                             True)
                   else pushBool m3 True))
      | _ \<Rightarrow> (Some ErrPanic, m))"

section \<open>A concrete interpreter table, for evaluating examples\<close>

text \<open>
  Modelled from the spec: \<open>vm.ParseProgram\<close> and the opcode table are not among the
  source files. The parser reads a program into instructions: a single-byte opcode,
  with the small integer as data for \<open>OP_1\<close> to \<open>OP_16\<close>; \<open>DATA_N\<close> followed by
  \<open>N\<close> bytes (\<open>N\<close> from 1 to 75); and \<open>PUSHDATA1\<close>, \<open>PUSHDATA2\<close>, \<open>PUSHDATA4\<close>
  followed by a little-endian length of 1, 2 or 4 bytes and that many bytes. A push
  that runs past the end of the program is an error. The values of the opcodes the
  classifiers name are the interpreter's usual ones; the source files do not give the
  values of \<open>VM_EVM\<close>, \<open>OP_CALL\<close>, \<open>OP_DEPOSIT\<close> and \<open>OP_WITHDRAW\<close>, and the
  table takes four codes that are otherwise unused. No theorem below depends on the
  table: it is used only where an example is evaluated.
\<close>

definition littleEndianValue :: "bytes \<Rightarrow> nat" where
  "littleEndianValue b = foldr (\<lambda>x a. unat x + 256 * a) b 0"

definition pushData :: "8 word \<Rightarrow> nat \<Rightarrow> bytes \<Rightarrow> (Instruction \<times> bytes) option" where
  "pushData opcode k rest =
     (if length rest < k then None
      else let n = littleEndianValue (take k rest); body = drop k rest
           in if length body < n then None
              else Some (Instruction opcode (of_nat (1 + k + n)) (take n body), drop n body))"

definition parseOp :: "8 word \<Rightarrow> bytes \<Rightarrow> (Instruction \<times> bytes) option" where
  "parseOp opcode rest =
     (if 0x51 \<le> opcode \<and> opcode \<le> 0x60 then Some (Instruction opcode 1 [opcode - 0x50], rest)
      else if 0x01 \<le> opcode \<and> opcode \<le> 0x4b then
        (if length rest < unat opcode then None
         else Some (Instruction opcode (1 + ucast opcode) (take (unat opcode) rest),
                    drop (unat opcode) rest))
      else if opcode = 0x4c then pushData opcode 1 rest
      else if opcode = 0x4d then pushData opcode 2 rest
      else if opcode = 0x4e then pushData opcode 4 rest
      else Some (Instruction opcode 1 [], rest))"

lemma parseOp_shorter: "parseOp opcode rest = Some (inst, rest') \<Longrightarrow> length rest' \<le> length rest"
  by (auto simp: parseOp_def pushData_def Let_def split: if_splits)

function parseProgram :: "bytes \<Rightarrow> error + Instruction list" where
  "parseProgram [] = Inr []"
| "parseProgram (opcode # rest) =
     (case parseOp opcode rest of
        None \<Rightarrow> Inl ErrShortProgram
      | Some (inst, rest') \<Rightarrow>
          (case parseProgram rest' of
             Inl err \<Rightarrow> Inl err
           | Inr insts \<Rightarrow> Inr (inst # insts)))"
  by pat_completeness auto
termination
  by (relation "measure length") (auto dest: parseOp_shorter)

definition bvm :: vmpkg where
  "bvm = \<lparr>ParseProgram = parseProgram, OP_16 = 0x60, OP_TRUE = 0x51, OP_FAIL = 0x6a,
          OP_DATA_1 = 0x01, OP_DATA_20 = 0x14, OP_PUSHDATA4 = 0x4e, VM_EVM = 0xd0,
          OP_CALL = 0xd2, OP_DEPOSIT = 0xd4, OP_WITHDRAW = 0xd5,
          IsOpCreate = (\<lambda>prog. False), IsOpContract = (\<lambda>prog. False)\<rparr>"

section \<open>A coinbase transaction, for evaluating examples\<close>

text \<open>
  A transaction as \<open>MapTx\<close> builds it from one coinbase input and one output of 100
  units of the native asset to the program \<open>OP_TRUE\<close>: the header lists the output,
  the output draws on the mux at position 0, and the mux draws on the coinbase. The
  ids are stand-ins for the content hashes, and \<open>demoEntryID\<close> gives each entry of
  the example its id. The transaction is the object at address 1, and the only one
  of \<open>demoBlock\<close>. \<open>demoCopyBlock\<close> has a second transaction with the same content,
  at address 2.
\<close>

definition demoOutId :: Hash where "demoOutId = Hash 0 0 0 1"
definition demoMuxId :: Hash where "demoMuxId = Hash 0 0 0 2"
definition demoCbId :: Hash where "demoCbId = Hash 0 0 0 3"

definition demoValue :: AssetAmount where
  "demoValue = AssetAmount (Some NativeAssetID) 100"

definition demoCoinbase :: Coinbase where
  "demoCoinbase = Coinbase (Some (ValueDestination (Some demoMuxId) (Some demoValue) 0)) []"

definition demoMux :: Mux where
  "demoMux = Mux [Some (ValueSource (Some demoCbId) (Some demoValue) 0)] (Program 1 [0x51])
                 [Some (ValueDestination (Some demoOutId) (Some demoValue) 0)]"

definition demoOutput :: Output where
  "demoOutput = Output (Some (ValueSource (Some demoMuxId) (Some demoValue) 0)) (Program 1 [0x51]) 0"

definition demoHeader :: TxHeader where
  "demoHeader = TxHeader 1 100 0 [demoOutId] demoMuxId (Hash 0 0 0 0)"

definition demoEntries :: "(Hash \<times> Entry) list" where
  "demoEntries = [(demoOutId, OutputE demoOutput), (demoMuxId, MuxE demoMux),
                  (demoCbId, CoinbaseE demoCoinbase)]"

definition demoTx :: Tx where
  "demoTx = \<lparr>Addr = 1, Header = demoHeader, ID = Hash 0 0 0 9, Entries = demoEntries,
             InputIDs = [demoCbId], SpentOutputIDs = [], GasInputIDs = []\<rparr>"

definition demoBlock :: Block where
  "demoBlock = \<lparr>BlockVersion = 1, Height = 1, Transactions = [demoTx]\<rparr>"

definition demoCopyBlock :: Block where
  "demoCopyBlock = \<lparr>BlockVersion = 1, Height = 1,
                    Transactions = [demoTx, demoTx\<lparr>Addr := 2\<rparr>]\<rparr>"

definition demoEntryID :: "Entry option \<Rightarrow> Hash" where
  "demoEntryID e =
     (case e of
        Some (OutputE _) \<Rightarrow> demoOutId
      | Some (MuxE _) \<Rightarrow> demoMuxId
      | Some (CoinbaseE _) \<Rightarrow> demoCbId
      | Some (TxHeaderE _) \<Rightarrow> Hash 0 0 0 9
      | _ \<Rightarrow> Hash 0 0 0 0)"

definition demoEnv :: Env where
  "demoEnv = \<lparr>vmOf = bvm, EntryID = demoEntryID, ComputeAssetID = (\<lambda>d. NativeAssetID),
              Verify = (\<lambda>vs e prog args gas. (None, gas, stateDB vs)),
              SupportBalanceInStateDB = False,
              rangeOrder = (\<lambda>parity. filter (\<lambda>a. parity a \<noteq> None)
                                        [NativeAssetID, AssetID 0 0 0 1])\<rparr>"

section \<open>Two pool entries, for evaluating examples\<close>

text \<open>
  The order on hashes that "hash ascending" refers to: the limbs compared from the
  first, unsigned.
\<close>

fun Hash_less :: "Hash \<Rightarrow> Hash \<Rightarrow> bool" where
  "Hash_less (Hash a0 a1 a2 a3) (Hash b0 b1 b2 b3) \<longleftrightarrow>
     a0 < b0 \<or> (a0 = b0 \<and> (a1 < b1 \<or> (a1 = b1 \<and> (a2 < b2 \<or> (a2 = b2 \<and> a3 < b3)))))"

text \<open>
  Two pool entries admitted within the same second, the first 5 ns and the second
  900 ns into it; the first has the smaller transaction hash.
\<close>

definition demoDescA :: TxDesc where
  "demoDescA = \<lparr>TxOf = demoTx\<lparr>ID := Hash 0 0 0 1\<rparr>, Added = Time 1000 5, Fee = 0\<rparr>"

definition demoDescB :: TxDesc where
  "demoDescB = \<lparr>TxOf = demoTx\<lparr>ID := Hash 0 0 0 2\<rparr>, Added = Time 1000 900, Fee = 0\<rparr>"



section \<open>Standardness, in the words of the specification\<close>

text \<open>
  The programs that claim C6 counts as recognized: the pay-to-witness family, and the
  op-deposit, op-withdraw and unspendable shapes.
\<close>

definition recognizedStandard :: "vmpkg \<Rightarrow> bytes \<Rightarrow> bool" where
  "recognizedStandard vm prog \<longleftrightarrow>
     IsP2WScript vm prog \<or> IsOpDeposit vm prog \<or> IsOpWithdraw vm prog \<or> IsUnspendable vm prog"

text \<open>
  What \<open>checkStandardTx\<close> asks of a gas input id and of a result id. A gas input is
  a spend whose spent output is an output entry of the transaction with a
  pay-to-witness control program, or a withdrawal with such a control program. A
  result is an entry of the transaction and, when it is an output of the native asset,
  has a pay-to-witness control program.
\<close>

definition gasInputStandard :: "vmpkg \<Rightarrow> Tx \<Rightarrow> Hash \<Rightarrow> bool" where
  "gasInputStandard vm t i =
     (case lookupEntry t i of
        Some (SpendE spend) \<Rightarrow>
          (case SpentOutputId spend of
             None \<Rightarrow> False
           | Some outID \<Rightarrow>
               (case lookupEntry t outID of
                  Some (OutputE spentOutput) \<Rightarrow>
                    IsP2WScript vm (Code (Output.ControlProgram spentOutput))
                | _ \<Rightarrow> False))
      | Some (WithdrawalE withdrawal) \<Rightarrow>
          IsP2WScript vm (Code (Withdrawal.ControlProgram withdrawal))
      | _ \<Rightarrow> False)"

definition resultStandard :: "vmpkg \<Rightarrow> Tx \<Rightarrow> Hash \<Rightarrow> bool" where
  "resultStandard vm t i =
     (case lookupEntry t i of
        None \<Rightarrow> False
      | Some (OutputE out) \<Rightarrow>
          (case Output.Source out of
             None \<Rightarrow> False
           | Some s \<Rightarrow>
          (case ValueSource.Value s of
             None \<Rightarrow> False
           | Some v \<Rightarrow>
          (case AssetId v of
             None \<Rightarrow> False
           | Some a \<Rightarrow>
               a \<noteq> NativeAssetID \<or> IsP2WScript vm (Code (Output.ControlProgram out)))))
      | Some _ \<Rightarrow> True)"

text \<open>
  A transaction with no gas input whose one result is an output of 100 units of the
  native asset to a withdraw program: \<open>OP_0 OP_0 DATA_20 <20 bytes> OP_WITHDRAW\<close>.
\<close>

definition demoWithdrawProgram :: bytes where
  "demoWithdrawProgram = [0x00, 0x00, 0x14] @ replicate 20 0xaa @ [0xd5]"

definition demoWithdrawOutput :: Output where
  "demoWithdrawOutput =
     Output (Some (ValueSource (Some demoMuxId) (Some demoValue) 0))
            (Program 1 demoWithdrawProgram) 0"

definition demoWithdrawTx :: Tx where
  "demoWithdrawTx = demoTx\<lparr>Entries := [(demoOutId, OutputE demoWithdrawOutput)]\<rparr>"

section \<open>Conservation at the mux, in the words of the specification\<close>









section \<open>The gas of a block's transactions, in the words of the specification\<close>






section \<open>Reference symmetry, in the words of the specification\<close>










text \<open>The steps that leave the transaction, the entry id and the memo table alone.\<close>

definition same :: "ValidationState \<Rightarrow> ValidationState \<Rightarrow> bool" where
  "same vs vs' \<longleftrightarrow> tx vs' = tx vs \<and> entryID vs' = entryID vs \<and> cache vs' = cache vs"













section \<open>The subsidy schedule\<close>

lemma div_by_max_word: "h \<noteq> - 1 \<Longrightarrow> (h :: u64) div (- 1) = 0"
proof -
  assume "h \<noteq> - 1"
  then have "unat h < unat (- 1 :: u64)"
    by (metis word_less_nat_alt word_order.not_eq_extremum)
  then have "unat h div unat (- 1 :: u64) = 0"
    by simp
  then show ?thesis
    by (simp add: word_arith_nat_div)
qed

text \<open>
  Claim C7, as stated, fails at the last height: \<open>2^64 - 1\<close> divided by the reduction
  interval \<open>2^64 - 1\<close> is 1, and the base subsidy is halved once.
\<close>

theorem BlockSubsidy_last_height_counterexample:
  "0 < (18446744073709551615 :: u64) \<and> BlockSubsidy 18446744073709551615 = 375000000"
  by (simp add: BlockSubsidy_def subsidyReductionInterval_def baseSubsidy_def)

text \<open>
  Claim C7, amended: the subsidy is 140,700,000,750,000,000 at height 0, 375,000,000
  at height \<open>2^64 - 1\<close> and 750,000,000 at every other height.
\<close>

theorem BlockSubsidy_schedule:
  "BlockSubsidy h =
     (if h = 0 then 140700000750000000
      else if h = 18446744073709551615 then 375000000
      else 750000000)"
proof (cases "h = 0 \<or> h = - 1")
  case True
  then show ?thesis
    by (auto simp: BlockSubsidy_def subsidyReductionInterval_def baseSubsidy_def
        InitialBlockSubsidy_def)
next
  case False
  then have quot: "h div (- 1) = 0"
    by (simp add: div_by_max_word)
  have "(18446744073709551615 :: u64) = - 1"
    by simp
  with False have ne: "h \<noteq> 18446744073709551615"
    by metis
  from False have nz: "h \<noteq> 0"
    by simp
  have "BlockSubsidy h = 750000000"
    using nz quot by (simp add: BlockSubsidy_def subsidyReductionInterval_def baseSubsidy_def)
  then show ?thesis
    using nz ne by (simp only: if_False)
qed

section \<open>Gas accounting\<close>

lemma sint_add_fits:
  "fitsInt64 (sint (a :: i64) + sint (b :: i64)) \<Longrightarrow> sint (a + b) = sint a + sint b"
  by (simp add: fitsInt64_def sint_word_add signed_take_bit_int_eq_self)

lemma sint_sub_fits:
  "fitsInt64 (sint (a :: i64) - sint (b :: i64)) \<Longrightarrow> sint (a - b) = sint a - sint b"
  by (simp add: fitsInt64_def sint_word_diff signed_take_bit_int_eq_self)

lemma fits_sub_in_range:
  "\<not> b <s 0 \<Longrightarrow> \<not> (a :: i64) <s b \<Longrightarrow> fitsInt64 (sint a - sint b)"
  using sint_range_size [of a] sint_range_size [of b]
  by (simp add: fitsInt64_def word_sless_alt word_size)

text \<open>
  Claim C3. For \<open>0 \<le> new \<le> GasLeft\<close> (as \<open>int64\<close>): \<open>updateUsage\<close> leaves the state
  with \<open>GasUsed\<close> increased by \<open>GasLeft - new\<close> and \<open>GasLeft = new\<close>, and nothing else
  changed; the difference is the exact one, and the increase is Go's \<open>+=\<close> on
  \<open>int64\<close>, which is the exact sum whenever that fits 64 bits; and the call fails,
  with ErrOverGasCredit, exactly when \<open>GasValid\<close> is false and, in the updated state,
  \<open>GasUsed > 30000\<close> or \<open>StorageGas > GasLeft\<close>, and returns nil otherwise.
\<close>

theorem updateUsage_books_gas:
  assumes "0 \<le>s new" and "new \<le>s GasLeft g"
  shows "snd (updateUsage g new) = g\<lparr>GasUsed := GasUsed g + (GasLeft g - new), GasLeft := new\<rparr>
       \<and> sint (GasLeft g - new) = sint (GasLeft g) - sint new
       \<and> (fitsInt64 (sint (GasUsed g) + (sint (GasLeft g) - sint new))
            \<longrightarrow> sint (GasUsed (snd (updateUsage g new)))
                  = sint (GasUsed g) + (sint (GasLeft g) - sint new))
       \<and> (fst (updateUsage g new) = Some ErrOverGasCredit
            \<longleftrightarrow> \<not> GasValid g \<and>
                (30000 <s GasUsed (snd (updateUsage g new))
                 \<or> GasLeft (snd (updateUsage g new)) <s StorageGas g))
       \<and> (fst (updateUsage g new) = None \<or> fst (updateUsage g new) = Some ErrOverGasCredit)"
proof -
  from assms have a: "\<not> new <s 0" and b: "\<not> GasLeft g <s new"
    by (simp_all add: word_sless_alt word_sle_eq)
  have fits: "fitsInt64 (sint (GasLeft g) - sint new)"
    by (rule fits_sub_in_range [OF a b])
  then have sub: "SubInt64 (GasLeft g) new = (GasLeft g - new, True)"
    by (simp add: SubInt64_def)
  have diff: "sint (GasLeft g - new) = sint (GasLeft g) - sint new"
    by (rule sint_sub_fits [OF fits])
  have st: "snd (updateUsage g new)
              = g\<lparr>GasUsed := GasUsed g + (GasLeft g - new), GasLeft := new\<rparr>"
    using a by (simp add: updateUsage_def sub Let_def)
  have total: "fitsInt64 (sint (GasUsed g) + (sint (GasLeft g) - sint new))
       \<Longrightarrow> sint (GasUsed g + (GasLeft g - new)) = sint (GasUsed g) + (sint (GasLeft g) - sint new)"
    using diff sint_add_fits [of "GasUsed g" "GasLeft g - new"] by simp
  have err: "fst (updateUsage g new)
       = (if \<not> GasValid g \<and> (30000 <s GasUsed g + (GasLeft g - new) \<or> new <s StorageGas g)
          then Some ErrOverGasCredit else None)"
    using a by (simp add: updateUsage_def sub Let_def DefaultGasCredit_def)
  show ?thesis
    using diff total by (simp add: st err)
qed

theorem updateUsage_books_gas_witness:
  "updateUsage \<lparr>AssetValue = 0, GasLeft = 100, GasUsed = 29990, GasValid = False, StorageGas = 10\<rparr> 40
     = (Some ErrOverGasCredit,
        \<lparr>AssetValue = 0, GasLeft = 40, GasUsed = 30050, GasValid = False, StorageGas = 10\<rparr>)"
proof -
  let ?g = "\<lparr>AssetValue = 0, GasLeft = 100, GasUsed = 29990, GasValid = False, StorageGas = 10\<rparr>"
  have h1: "0 \<le>s (40 :: i64)" and h2: "(40 :: i64) \<le>s GasLeft ?g"
    by (simp_all add: word_sle_eq)
  from updateUsage_books_gas [OF h1 h2]
  have "snd (updateUsage ?g 40) = ?g\<lparr>GasUsed := GasUsed ?g + (GasLeft ?g - 40), GasLeft := 40\<rparr>"
   and "fst (updateUsage ?g 40) = Some ErrOverGasCredit
            \<longleftrightarrow> \<not> GasValid ?g \<and>
                (30000 <s GasUsed (snd (updateUsage ?g 40))
                 \<or> GasLeft (snd (updateUsage ?g 40)) <s StorageGas ?g)"
    by blast+
  then have "snd (updateUsage ?g 40)
               = \<lparr>AssetValue = 0, GasLeft = 40, GasUsed = 30050, GasValid = False, StorageGas = 10\<rparr>"
    and "fst (updateUsage ?g 40) = Some ErrOverGasCredit"
    by (simp_all add: word_sless_alt)
  then show ?thesis
    by (simp add: prod_eq_iff)
qed

section \<open>The Coinbase case\<close>

lemma destRefersBack_errors:
  "destRefersBack vs d src = Some err \<Longrightarrow>
     err \<in> {ErrPanic, ErrMismatchedReference, ErrMismatchedPosition, ErrMissingField,
             ErrMismatchedValue}"
  by (auto simp: destRefersBack_def split: option.splits if_splits)

lemma destSrc_errors: "destSrc e pos = Inl err \<Longrightarrow> err \<in> {ErrPosition, ErrEntryType}"
  by (auto simp: destSrc_def split: Entry.splits if_splits)

lemma checkValidDest_errors:
  "checkValidDest vs vd = Some err \<Longrightarrow>
     err \<in> {ErrMissingField, ErrMissingEntry, ErrPosition, ErrEntryType, ErrPanic,
             ErrMismatchedReference, ErrMismatchedPosition, ErrMismatchedValue}"
  by (auto simp: checkValidDest_def split: option.splits sum.splits
      dest: destRefersBack_errors destSrc_errors)

text \<open>
  Claim C5. The Coinbase case of \<open>checkValid\<close> makes its checks in the order the
  claim lists them, each when the ones before it passed. "The transaction being
  validated is \<open>block.Transactions[0]\<close>" is the comparison of two pointers: the
  first pointer of the block holds the address of the transaction under validation.
  For a coinbase whose destination, value and asset id are set: it fails with
  ErrWrongCoinbaseTransaction unless the block is there, has a transaction and its
  first transaction is, by address, the one under validation; in particular it fails
  so for the transaction at any later index of a block whose transactions are
  distinct objects, whatever its content. Then it fails with ErrWrongCoinbaseAsset
  unless the destination's asset is the native one; then with
  ErrCoinbaseArbitraryOversize if and only if the arbitrary field is longer than 128
  bytes (and in no case with that error when it is not); and when it returns nil,
  \<open>GasValid\<close> is true, whatever it was. \<open>checkValid\<close> on a coinbase entry that is not
  memoized runs exactly this case.
\<close>

theorem checkCoinbase_checks:
  assumes "Coinbase.WitnessDestination e = Some d"
    and "ValueDestination.Value d = Some v"
    and "AssetId v = Some a"
  shows "(\<not> (\<exists>b. block vs = Some b \<and> Transactions b \<noteq> []
                 \<and> Addr (Transactions b ! 0) = Addr (tx vs))
            \<longrightarrow> checkCoinbase vs e = (Some ErrWrongCoinbaseTransaction, vs))
       \<and> (\<forall>b i. block vs = Some b \<and> distinct (map Addr (Transactions b))
                 \<and> 0 < i \<and> i < length (Transactions b)
                 \<and> Addr (tx vs) = Addr (Transactions b ! i)
            \<longrightarrow> checkCoinbase vs e = (Some ErrWrongCoinbaseTransaction, vs))
       \<and> ((\<exists>b. block vs = Some b \<and> Transactions b \<noteq> []
                \<and> Addr (Transactions b ! 0) = Addr (tx vs))
            \<longrightarrow> (a \<noteq> NativeAssetID \<longrightarrow> checkCoinbase vs e = (Some ErrWrongCoinbaseAsset, vs))
              \<and> (a = NativeAssetID \<longrightarrow>
                   (fst (checkCoinbase vs e) = Some ErrCoinbaseArbitraryOversize
                      \<longleftrightarrow> 128 < length (Arbitrary e))))
       \<and> (fst (checkCoinbase vs e) = Some ErrCoinbaseArbitraryOversize
            \<longrightarrow> 128 < length (Arbitrary e))
       \<and> (fst (checkCoinbase vs e) = None
            \<longrightarrow> GasValid (gasStatus (snd (checkCoinbase vs e)))
              \<and> snd (checkCoinbase vs e) = vs\<lparr>gasStatus := (gasStatus vs)\<lparr>GasValid := True\<rparr>\<rparr>)
       \<and> (cache vs (EntryID env (Some (CoinbaseE e))) = None
            \<longrightarrow> checkValid env (Suc fuel) vs (Some (CoinbaseE e))
                = Some (fst (checkCoinbase vs e),
                        (snd (checkCoinbase vs e))
                          \<lparr>cache := (cache (snd (checkCoinbase vs e)))
                                      (EntryID env (Some (CoinbaseE e)) \<mapsto> fst (checkCoinbase vs e))\<rparr>))"
proof -
  let ?first = "\<exists>b. block vs = Some b \<and> Transactions b \<noteq> []
                   \<and> Addr (Transactions b ! 0) = Addr (tx vs)"
  have no_oversize: "checkValidDest (vs\<lparr>destPos := 0\<rparr>) (Some d) \<noteq> Some ErrCoinbaseArbitraryOversize"
    using checkValidDest_errors [of "vs\<lparr>destPos := 0\<rparr>" "Some d" ErrCoinbaseArbitraryOversize]
    by auto
  have c1: "\<not> ?first \<Longrightarrow> checkCoinbase vs e = (Some ErrWrongCoinbaseTransaction, vs)"
    by (auto simp: checkCoinbase_def split: option.splits)
  have later: "\<not> ?first"
    if b: "block vs = Some b" and dist: "distinct (map Addr (Transactions b))"
      and i: "0 < i" "i < length (Transactions b)"
      and same: "Addr (tx vs) = Addr (Transactions b ! i)" for b i
  proof
    assume ?first
    with b have a0: "Addr (Transactions b ! 0) = Addr (Transactions b ! i)"
      using same by simp
    have len0: "0 < length (Transactions b)"
      using i by linarith
    have eq: "map Addr (Transactions b) ! 0 = map Addr (Transactions b) ! i"
      using a0 i len0 by (simp only: nth_map)
    have "(map Addr (Transactions b) ! 0 = map Addr (Transactions b) ! i) = (0 = i)"
      using dist i len0 by (intro nth_eq_iff_index_eq) simp_all
    with eq i show False
      by simp
  qed
  have c1': "\<forall>b i. block vs = Some b \<and> distinct (map Addr (Transactions b))
                 \<and> 0 < i \<and> i < length (Transactions b)
                 \<and> Addr (tx vs) = Addr (Transactions b ! i)
            \<longrightarrow> checkCoinbase vs e = (Some ErrWrongCoinbaseTransaction, vs)"
    using later c1 by blast
  have c2: "?first \<Longrightarrow> a \<noteq> NativeAssetID
            \<Longrightarrow> checkCoinbase vs e = (Some ErrWrongCoinbaseAsset, vs)"
    using assms by (auto simp: checkCoinbase_def split: option.splits)
  have c3: "?first \<Longrightarrow> a = NativeAssetID \<Longrightarrow>
              (fst (checkCoinbase vs e) = Some ErrCoinbaseArbitraryOversize
                 \<longleftrightarrow> 128 < length (Arbitrary e))"
    using assms no_oversize
    by (auto simp: checkCoinbase_def CoinbaseArbitrarySizeLimit_def split: option.splits)
  have c4: "fst (checkCoinbase vs e) = Some ErrCoinbaseArbitraryOversize
            \<Longrightarrow> 128 < length (Arbitrary e)"
    using assms no_oversize
    by (auto simp: checkCoinbase_def CoinbaseArbitrarySizeLimit_def
        split: option.splits if_splits)
  have c5: "fst (checkCoinbase vs e) = None
            \<Longrightarrow> snd (checkCoinbase vs e) = vs\<lparr>gasStatus := (gasStatus vs)\<lparr>GasValid := True\<rparr>\<rparr>"
    using assms
    by (auto simp: checkCoinbase_def split: option.splits if_splits)
  have c6: "cache vs (EntryID env (Some (CoinbaseE e))) = None
            \<Longrightarrow> checkValid env (Suc fuel) vs (Some (CoinbaseE e))
                = Some (fst (checkCoinbase vs e),
                        (snd (checkCoinbase vs e))
                          \<lparr>cache := (cache (snd (checkCoinbase vs e)))
                                      (EntryID env (Some (CoinbaseE e)) \<mapsto> fst (checkCoinbase vs e))\<rparr>)"
    by (simp add: checkValidStep_def checkEntry_def Let_def split: prod.splits)
  from c5 have c5': "fst (checkCoinbase vs e) = None
            \<Longrightarrow> GasValid (gasStatus (snd (checkCoinbase vs e)))"
    by simp
  from c2 c3 have c23: "?first
            \<longrightarrow> (a \<noteq> NativeAssetID \<longrightarrow> checkCoinbase vs e = (Some ErrWrongCoinbaseAsset, vs))
              \<and> (a = NativeAssetID \<longrightarrow>
                   (fst (checkCoinbase vs e) = Some ErrCoinbaseArbitraryOversize
                      \<longleftrightarrow> 128 < length (Arbitrary e)))"
    by blast
  from c5 c5' have c55: "fst (checkCoinbase vs e) = None
            \<longrightarrow> GasValid (gasStatus (snd (checkCoinbase vs e)))
              \<and> snd (checkCoinbase vs e) = vs\<lparr>gasStatus := (gasStatus vs)\<lparr>GasValid := True\<rparr>\<rparr>"
    by blast
  show ?thesis
    using c1 c1' c23 c4 c55 c6 by (intro conjI impI) blast+
qed

theorem checkCoinbase_checks_witness:
  "fst (checkCoinbase ((newValidationState demoTx demoBlock (\<lambda>a. 0))\<lparr>entryID := demoCbId\<rparr>)
          (Coinbase (Some (ValueDestination (Some demoMuxId) (Some demoValue) 0))
             (replicate 129 0)))
     = Some ErrCoinbaseArbitraryOversize
   \<and> fst (checkCoinbase ((newValidationState demoTx demoBlock (\<lambda>a. 0))\<lparr>entryID := demoCbId\<rparr>) demoCoinbase) = None
   \<and> GasValid (gasStatus (snd (checkCoinbase ((newValidationState demoTx demoBlock (\<lambda>a. 0))\<lparr>entryID := demoCbId\<rparr>)
                                   demoCoinbase)))
   \<and> demoTx\<lparr>Addr := 2\<rparr> = Transactions demoCopyBlock ! 1
   \<and> Entries (demoTx\<lparr>Addr := 2\<rparr>) = Entries (Transactions demoCopyBlock ! 0)
   \<and> fst (checkCoinbase (newValidationState (demoTx\<lparr>Addr := 2\<rparr>) demoCopyBlock (\<lambda>a. 0))
            demoCoinbase)
     = Some ErrWrongCoinbaseTransaction"
proof -
  let ?vs = "(newValidationState demoTx demoBlock (\<lambda>a. 0))\<lparr>entryID := demoCbId\<rparr>"
  let ?vs2 = "newValidationState (demoTx\<lparr>Addr := 2\<rparr>) demoCopyBlock (\<lambda>a. 0)"
  let ?d = "ValueDestination (Some demoMuxId) (Some demoValue) 0"
  have first: "\<exists>b. block ?vs = Some b \<and> Transactions b \<noteq> []
                   \<and> Addr (Transactions b ! 0) = Addr (tx ?vs)"
    by (simp add: newValidationState_def demoBlock_def)
  have h1: "Coinbase.WitnessDestination (Coinbase (Some ?d) (replicate 129 0)) = Some ?d"
    by simp
  have h2: "ValueDestination.Value ?d = Some demoValue"
    by simp
  have h3: "AssetId demoValue = Some NativeAssetID"
    by (simp add: demoValue_def)
  from checkCoinbase_checks [OF h1 h2 h3, of ?vs] first
  have "fst (checkCoinbase ?vs (Coinbase (Some ?d) (replicate 129 0)))
          = Some ErrCoinbaseArbitraryOversize
        \<longleftrightarrow> 128 < length (Arbitrary (Coinbase (Some ?d) (replicate 129 0)))"
    by blast
  then have big: "fst (checkCoinbase ?vs (Coinbase (Some ?d) (replicate 129 0)))
               = Some ErrCoinbaseArbitraryOversize"
    by simp
  have ok: "fst (checkCoinbase ?vs demoCoinbase) = None"
    by (simp add: checkCoinbase_def newValidationState_def demoBlock_def demoCoinbase_def
        demoValue_def CoinbaseArbitrarySizeLimit_def checkValidDest_def demoTx_def
        demoEntries_def lookupEntry_def demoMuxId_def demoOutId_def demoCbId_def destSrc_def demoMux_def
        destRefersBack_def AssetAmount_Equal_def)
  have h4: "Coinbase.WitnessDestination demoCoinbase = Some ?d"
    by (simp add: demoCoinbase_def)
  from checkCoinbase_checks [OF h4 h2 h3, of ?vs] ok
  have valid: "GasValid (gasStatus (snd (checkCoinbase ?vs demoCoinbase)))"
    by blast
  have copy: "block ?vs2 = Some demoCopyBlock \<and> distinct (map Addr (Transactions demoCopyBlock))
                 \<and> 0 < (1 :: nat) \<and> 1 < length (Transactions demoCopyBlock)
                 \<and> Addr (tx ?vs2) = Addr (Transactions demoCopyBlock ! 1)"
    by (simp add: newValidationState_def demoCopyBlock_def demoTx_def)
  note later = checkCoinbase_checks [OF h4 h2 h3, of ?vs2, THEN conjunct2, THEN conjunct1]
  from later [rule_format, OF copy]
  have wrong: "fst (checkCoinbase ?vs2 demoCoinbase) = Some ErrWrongCoinbaseTransaction"
    by simp
  have same: "demoTx\<lparr>Addr := 2\<rparr> = Transactions demoCopyBlock ! 1"
    "Entries (demoTx\<lparr>Addr := 2\<rparr>) = Entries (Transactions demoCopyBlock ! 0)"
    by (simp_all add: demoCopyBlock_def)
  from big ok valid same wrong show ?thesis
    by (intro conjI)
qed

section \<open>The checks before the walk\<close>

text \<open>
  Claim C10. When a check that \<open>ValidateTx\<close> makes before the walk fails --- the
  version check, the size check, the time-range check or the standardness check ---
  \<open>ValidateTx\<close> returns at once, whatever the fuel: the error is the one of the first
  failing check, and the state is the initial one, whose gas state is all zero with
  \<open>GasValid\<close> false. The block assembler evicts a transaction that comes back with an
  error and \<open>GasValid\<close> false and goes on without including it, and \<open>ValidateBlock\<close>
  returns its error: it is never kept as a gas-only transaction.
\<close>

theorem ValidateTx_precheck_failure:
  assumes "(BlockVersion b = 1 \<and> Version (Header t) \<noteq> 1)
         \<or> SerializedSize (Header t) = 0
         \<or> checkTimeRange t b \<noteq> None
         \<or> checkStandardTx (vmOf env) t \<noteq> None"
  shows "ValidateTx env fuel t b db =
           Some (newValidationState t b db,
                 if BlockVersion b = 1 \<and> Version (Header t) \<noteq> 1 then Some ErrTxVersion
                 else if SerializedSize (Header t) = 0 then Some ErrWrongTransactionSize
                 else if checkTimeRange t b \<noteq> None then checkTimeRange t b
                 else checkStandardTx (vmOf env) t)
       \<and> (\<exists>vs err. ValidateTx env fuel t b db = Some (vs, Some err)
                    \<and> \<not> GasValid (gasStatus vs) \<and> gasStatus vs = newGasState)
       \<and> (\<forall>c d rest a g err db1 v1.
             getTransactionsUtxo c (view a) (TxOf d) = (True, v1)
             \<and> validateTx c (TxOf d) (accounts a) = (g, Some err, db1) \<and> \<not> GasValid g
             \<longrightarrow> assemble c (d # rest) (a :: 'v Assembly)
                 = assemble c rest
                     (a\<lparr>view := v1, poolRemoved := poolRemoved a @ [ID (TxOf d)],
                        accounts := accounts a\<rparr>))
       \<and> (\<forall>validate t' rest gasSum amount db' status gasLog g err db1.
             validate t' db' = (g, Some err, db1) \<and> \<not> GasValid g
             \<longrightarrow> validateBlockTxs validate (t' # rest) gasSum amount db' status gasLog
                 = Inl (Some err))"
proof -
  have res: "ValidateTx env fuel t b db =
           Some (newValidationState t b db,
                 if BlockVersion b = 1 \<and> Version (Header t) \<noteq> 1 then Some ErrTxVersion
                 else if SerializedSize (Header t) = 0 then Some ErrWrongTransactionSize
                 else if checkTimeRange t b \<noteq> None then checkTimeRange t b
                 else checkStandardTx (vmOf env) t)"
    using assms by (auto simp: ValidateTx_def Let_def split: option.splits)
  have gas: "gasStatus (newValidationState t b db) = newGasState"
    by (simp add: newValidationState_def)
  have "\<exists>err. (if BlockVersion b = 1 \<and> Version (Header t) \<noteq> 1 then Some ErrTxVersion
                 else if SerializedSize (Header t) = 0 then Some ErrWrongTransactionSize
                 else if checkTimeRange t b \<noteq> None then checkTimeRange t b
                 else checkStandardTx (vmOf env) t) = Some err"
    using assms by auto
  then have ex: "\<exists>vs err. ValidateTx env fuel t b db = Some (vs, Some err)
                    \<and> \<not> GasValid (gasStatus vs) \<and> gasStatus vs = newGasState"
    using res gas by (auto simp: newGasState_def)
  have asm: "\<forall>c d rest a g err db1 v1.
             getTransactionsUtxo c (view a) (TxOf d) = (True, v1)
             \<and> validateTx c (TxOf d) (accounts a) = (g, Some err, db1) \<and> \<not> GasValid g
             \<longrightarrow> assemble c (d # rest) (a :: 'v Assembly)
                 = assemble c rest
                     (a\<lparr>view := v1, poolRemoved := poolRemoved a @ [ID (TxOf d)],
                        accounts := accounts a\<rparr>)"
    by (simp add: Let_def)
  have vb: "\<forall>validate t' rest gasSum amount db' status gasLog g err db1.
             validate t' db' = (g, Some err, db1) \<and> \<not> GasValid g
             \<longrightarrow> validateBlockTxs validate (t' # rest) gasSum amount db' status gasLog
                 = Inl (Some err)"
    by (simp add: Let_def)
  show ?thesis
    using res ex asm vb by blast
qed

theorem ValidateTx_precheck_failure_witness:
  "ValidateTx demoEnv 0 (demoTx\<lparr>Header := TxHeader 1 0 0 [demoOutId] demoMuxId (Hash 0 0 0 0)\<rparr>)
       demoBlock (\<lambda>a. 0)
     = Some (newValidationState
               (demoTx\<lparr>Header := TxHeader 1 0 0 [demoOutId] demoMuxId (Hash 0 0 0 0)\<rparr>)
               demoBlock (\<lambda>a. 0),
             Some ErrWrongTransactionSize)
   \<and> \<not> GasValid (gasStatus (newValidationState
               (demoTx\<lparr>Header := TxHeader 1 0 0 [demoOutId] demoMuxId (Hash 0 0 0 0)\<rparr>)
               demoBlock (\<lambda>a. 0)))"
proof -
  let ?t = "demoTx\<lparr>Header := TxHeader 1 0 0 [demoOutId] demoMuxId (Hash 0 0 0 0)\<rparr>"
  have h: "(BlockVersion demoBlock = 1 \<and> Version (Header ?t) \<noteq> 1)
         \<or> SerializedSize (Header ?t) = 0
         \<or> checkTimeRange ?t demoBlock \<noteq> None
         \<or> checkStandardTx (vmOf demoEnv) ?t \<noteq> None"
    by simp
  from ValidateTx_precheck_failure [OF h, of 0 "\<lambda>a. 0"]
  have "ValidateTx demoEnv 0 ?t demoBlock (\<lambda>a. 0) =
           Some (newValidationState ?t demoBlock (\<lambda>a. 0),
                 if BlockVersion demoBlock = 1 \<and> Version (Header ?t) \<noteq> 1 then Some ErrTxVersion
                 else if SerializedSize (Header ?t) = 0 then Some ErrWrongTransactionSize
                 else if checkTimeRange ?t demoBlock \<noteq> None then checkTimeRange ?t demoBlock
                 else checkStandardTx (vmOf demoEnv) ?t)"
    by blast
  then show ?thesis
    by (simp add: newValidationState_def newGasState_def)
qed

section \<open>The deposit and withdraw opcodes\<close>

lemma popOperands_ok:
  assumes "dataStack m = rest @ [versionBytes, vmTypeBytes, address]"
    and "bytesUint64 vmTypeBytes = 0" and "bytesUint64 versionBytes = 0"
  shows "\<exists>m3. popOperands m = (Inr address, m3) \<and> ctxStateDB m3 = ctxStateDB m
              \<and> dataStack m3 = rest"
proof -
  have l1: "last (dataStack m) = address"
    and b1: "butlast (dataStack m) = rest @ [versionBytes, vmTypeBytes]"
    and n1: "dataStack m \<noteq> []"
    using assms(1) by (simp_all add: butlast_append)
  have l2: "last (rest @ [versionBytes, vmTypeBytes]) = vmTypeBytes"
    and b2: "butlast (rest @ [versionBytes, vmTypeBytes]) = rest @ [versionBytes]"
    by (simp_all add: butlast_append)
  have l3: "last (rest @ [versionBytes]) = versionBytes"
    and b3: "butlast (rest @ [versionBytes]) = rest"
    by simp_all
  show ?thesis
    using assms(2,3) by (simp add: popOperands_def pop_def l1 b1 n1 l2 b2 l3 b3)
qed

lemma pushBool_keeps_accounts: "ctxStateDB (snd (pushBool m b)) = ctxStateDB m"
  by (simp add: pushBool_def push_def Let_def)

lemma pushBool_errors:
  "fst (pushBool m b) = None \<or> fst (pushBool m b) = Some ErrRunLimitExceeded"
  by (simp add: pushBool_def push_def Let_def)

text \<open>
  Claim C9. The opcodes run on a stack that ends with the version, the vm type and,
  on top, a 20-byte address, version and vm type being zero, in a context whose asset
  is the native one. \<open>OP_WITHDRAW\<close> fails with ErrInsufficientBalance when the
  address's balance is less than the amount, and the account state is then as it
  was; otherwise it lowers that balance by the amount and changes no other. 
  \<open>OP_DEPOSIT\<close> raises that balance by the amount and changes no other. After the
  balance is changed the only failure left is the run limit, on pushing the result.
\<close>

theorem opWithdraw_opDeposit_balance:
  assumes "dataStack m = rest @ [versionBytes, vmTypeBytes, address]"
    and "bytesUint64 vmTypeBytes = 0" and "bytesUint64 versionBytes = 0"
    and "length address = 20"
    and "ctxAssetID m = Some (AssetID_Bytes NativeAssetID)"
    and "ctxAmount m = Some amount"
  shows "(GetBalance (ctxStateDB m) address < uint amount
            \<longrightarrow> fst (opWithdraw m) = Some ErrInsufficientBalance
              \<and> ctxStateDB (snd (opWithdraw m)) = ctxStateDB m)
       \<and> (uint amount \<le> GetBalance (ctxStateDB m) address
            \<longrightarrow> ctxStateDB (snd (opWithdraw m))
                  = (ctxStateDB m)(address := GetBalance (ctxStateDB m) address - uint amount)
              \<and> (fst (opWithdraw m) = None \<or> fst (opWithdraw m) = Some ErrRunLimitExceeded))
       \<and> ctxStateDB (snd (opDeposit m))
            = (ctxStateDB m)(address := GetBalance (ctxStateDB m) address + uint amount)
       \<and> (fst (opDeposit m) = None \<or> fst (opDeposit m) = Some ErrRunLimitExceeded)"
proof -
  from popOperands_ok [OF assms(1-3)] obtain m3 where
    p: "popOperands m = (Inr address, m3)" and db: "ctxStateDB m3 = ctxStateDB m"
    by blast
  have addr: "BytesToAddress address = address"
    using assms(4) by (simp add: BytesToAddress_def)
  have w1: "GetBalance (ctxStateDB m) address < uint amount
            \<Longrightarrow> opWithdraw m = (Some ErrInsufficientBalance, m3)"
    using assms(5,6) by (simp add: opWithdraw_def p addr db CanTransfer_def)
  have w2: "uint amount \<le> GetBalance (ctxStateDB m) address
            \<Longrightarrow> opWithdraw m
                = pushBool (m3\<lparr>ctxStateDB := SubBalance (ctxStateDB m) address (uint amount)\<rparr>) True"
    using assms(5,6) by (simp add: opWithdraw_def p addr db CanTransfer_def)
  have d: "opDeposit m
             = pushBool (m3\<lparr>ctxStateDB := AddBalance (ctxStateDB m) address (uint amount)\<rparr>) True"
    using assms(5,6) by (simp add: opDeposit_def p addr db)
  show ?thesis
    using pushBool_errors
    by (auto simp: w1 w2 d db pushBool_keeps_accounts SubBalance_def AddBalance_def
        GetBalance_def)
qed

lemma NativeAssetID_Bytes: "AssetID_Bytes NativeAssetID = replicate 32 255"
  by code_simp

theorem opWithdraw_opDeposit_balance_witness:
  "fst (opWithdraw \<lparr>runLimit = 1000, dataStack = [[], [], replicate 20 170],
                    ctxAssetID = Some (AssetID_Bytes NativeAssetID), ctxAmount = Some 500,
                    ctxStateDB = (\<lambda>a. 0)(replicate 20 170 := 300)\<rparr>)
     = Some ErrInsufficientBalance
   \<and> ctxStateDB (snd (opWithdraw \<lparr>runLimit = 1000, dataStack = [[], [], replicate 20 170],
                    ctxAssetID = Some (AssetID_Bytes NativeAssetID), ctxAmount = Some 500,
                    ctxStateDB = (\<lambda>a. 0)(replicate 20 170 := 300)\<rparr>)) (replicate 20 170) = 300
   \<and> ctxStateDB (snd (opDeposit \<lparr>runLimit = 1000, dataStack = [[], [], replicate 20 170],
                    ctxAssetID = Some (AssetID_Bytes NativeAssetID), ctxAmount = Some 500,
                    ctxStateDB = (\<lambda>a. 0)(replicate 20 170 := 300)\<rparr>)) (replicate 20 170) = 800"
proof -
  let ?m = "\<lparr>runLimit = 1000, dataStack = [[], [], replicate 20 170],
             ctxAssetID = Some (AssetID_Bytes NativeAssetID), ctxAmount = Some 500,
             ctxStateDB = (\<lambda>a. 0)(replicate 20 170 := 300)\<rparr>"
  have h1: "dataStack ?m = [] @ [[], [], replicate 20 170]"
    by simp
  have h2: "bytesUint64 [] = 0"
    by (simp add: bytesUint64_def bigEndianValue_def)
  have h4: "length (replicate 20 (170 :: 8 word)) = 20"
    by simp
  have h5: "ctxAssetID ?m = Some (AssetID_Bytes NativeAssetID)"
    by simp
  have h6: "ctxAmount ?m = Some 500"
    by simp
  have low: "GetBalance (ctxStateDB ?m) (replicate 20 170) < uint (500 :: u64)"
    by (simp add: GetBalance_def)
  from opWithdraw_opDeposit_balance [OF h1 h2 h2 h4 h5 h6] low
  have "fst (opWithdraw ?m) = Some ErrInsufficientBalance"
    and "ctxStateDB (snd (opWithdraw ?m)) = ctxStateDB ?m"
    and "ctxStateDB (snd (opDeposit ?m))
           = (ctxStateDB ?m)(replicate 20 170
                := GetBalance (ctxStateDB ?m) (replicate 20 170) + uint (500 :: u64))"
    by blast+
  then show ?thesis
    by (simp add: GetBalance_def)
qed

section \<open>The order of block assembly\<close>

lemma set_insertByTime: "set (insertByTime x ys) = insert x (set ys)"
  by (induction ys) auto

lemma mset_insertByTime: "mset (insertByTime x ys) = add_mset x (mset ys)"
  by (induction ys) auto

lemma sorted_insertByTime:
  "sorted_wrt (\<lambda>a b. Unix (Added a) \<le>s Unix (Added b)) ys
   \<Longrightarrow> sorted_wrt (\<lambda>a b. Unix (Added a) \<le>s Unix (Added b)) (insertByTime x ys)"
proof (induction ys)
  case Nil
  then show ?case by simp
next
  case (Cons y ys)
  show ?case
  proof (cases "byTime_Less x y")
    case True
    then have "\<forall>z \<in> set (y # ys). Unix (Added x) \<le>s Unix (Added z)"
      using Cons.prems by (auto simp: byTime_Less_def word_sle_eq word_sless_alt)
    then show ?thesis
      using True Cons.prems by simp
  next
    case False
    then have "Unix (Added y) \<le>s Unix (Added x)"
      by (simp add: byTime_Less_def word_sle_eq word_sless_alt)
    then show ?thesis
      using False Cons by (auto simp: set_insertByTime)
  qed
qed

lemma sorted_foldl_insertByTime:
  "sorted_wrt (\<lambda>a b. Unix (Added a) \<le>s Unix (Added b)) pre
   \<Longrightarrow> sorted_wrt (\<lambda>a b. Unix (Added a) \<le>s Unix (Added b))
         (foldl (\<lambda>pre x. insertByTime x pre) pre txs)"
  by (induction txs arbitrary: pre) (simp_all add: sorted_insertByTime)

lemma mset_foldl_insertByTime:
  "mset (foldl (\<lambda>pre x. insertByTime x pre) pre txs) = mset pre + mset txs"
  by (induction txs arbitrary: pre) (simp_all add: mset_insertByTime)

lemma assemble_included:
  "\<exists>ys. included (assemble c xs a) = included a @ ys \<and> subseq (map fst ys) xs"
proof (induction xs arbitrary: a)
  case Nil
  then show ?case by simp
next
  case (Cons d xs)
  obtain found view1 where g: "getTransactionsUtxo c (view a) (TxOf d) = (found, view1)"
    by (cases "getTransactionsUtxo c (view a) (TxOf d)")
  obtain gasStatus err db1 where v: "validateTx c (TxOf d) (accounts a) = (gasStatus, err, db1)"
    by (cases "validateTx c (TxOf d) (accounts a)")
  obtain applied view2 where ap: "applyTransaction c view1 (TxOf d) (err \<noteq> None) = (applied, view2)"
    by (cases "applyTransaction c view1 (TxOf d) (err \<noteq> None)")
  let ?skip1 = "a\<lparr>view := view1, poolRemoved := poolRemoved a @ [ID (TxOf d)]\<rparr>"
  let ?skip2 = "a\<lparr>view := view1, poolRemoved := poolRemoved a @ [ID (TxOf d)],
                   accounts := accounts a\<rparr>"
  let ?skip3 = "a\<lparr>view := view2, poolRemoved := poolRemoved a @ [ID (TxOf d)],
                   accounts := accounts a\<rparr>"
  let ?a1 = "a\<lparr>view := view2,
                accounts := (if err \<noteq> None then accounts a else db1),
                gasUsed := gasUsed a + GasUsed gasStatus,
                txFee := txFee a + Fee d,
                included := included a @ [(d, err \<noteq> None, gasStatus)]\<rparr>"
  have step: "assemble c (d # xs) a =
      (if \<not> found then assemble c xs ?skip1
       else if err \<noteq> None \<and> \<not> GasValid gasStatus then assemble c xs ?skip2
       else if MaxBlockGas < gasUsed a + GasUsed gasStatus
         then a\<lparr>view := view1, accounts := db1\<rparr>
       else if \<not> applied then assemble c xs ?skip3
       else if gasUsed a + GasUsed gasStatus = MaxBlockGas then ?a1
       else assemble c xs ?a1)"
    using g v ap by (cases err) (simp_all add: Let_def)
  let ?P = "\<lambda>r. \<exists>ys. included r = included a @ ys \<and> subseq (map fst ys) (d # xs)"
  have skip: "?P (assemble c xs a')" if "included a' = included a" for a'
  proof -
    from Cons.IH [of a'] obtain ys where
      "included (assemble c xs a') = included a' @ ys" "subseq (map fst ys) xs"
      by blast
    then show ?thesis
      using that by (intro exI [of _ ys]) (simp add: list_emb_Cons)
  qed
  have r1: "?P (assemble c xs ?skip1)" by (rule skip) simp
  have r2: "?P (assemble c xs ?skip2)" by (rule skip) simp
  have r3: "?P (assemble c xs ?skip3)" by (rule skip) simp
  have r4: "?P (a\<lparr>view := view1, accounts := db1\<rparr>)"
    by (intro exI [of _ "[]"]) simp
  have r5: "?P ?a1"
    by (intro exI [of _ "[(d, err \<noteq> None, gasStatus)]"]) simp
  have r6: "?P (assemble c xs ?a1)"
  proof -
    from Cons.IH [of ?a1] obtain ys where
      "included (assemble c xs ?a1) = included ?a1 @ ys" "subseq (map fst ys) xs"
      by blast
    then show ?thesis
      by (intro exI [of _ "(d, err \<noteq> None, gasStatus) # ys"]) simp
  qed
  show ?case
    unfolding step using r1 r2 r3 r4 r5 r6 by presburger
qed

text \<open>
  Claim C8, as stated, fails: \<open>byTime.Less\<close> compares whole seconds only and nothing
  compares hashes. Of two pool entries admitted in the same second the one the pool
  lists first is visited first, whichever was admitted earlier and whichever has the
  smaller hash; and the other listing of the same pool gives the other order.
\<close>

theorem sortByTime_ties_counterexample:
  "sortByTime [demoDescB, demoDescA] = [demoDescB, demoDescA]
   \<and> sortByTime [demoDescA, demoDescB] = [demoDescA, demoDescB]
   \<and> Unix (Added demoDescA) = Unix (Added demoDescB)
   \<and> Nanosecond (Added demoDescA) < Nanosecond (Added demoDescB)
   \<and> Hash_less (ID (TxOf demoDescA)) (ID (TxOf demoDescB))"
  by (simp add: sortByTime_def byTime_Less_def demoDescA_def demoDescB_def)

text \<open>
  Claim C8, amended: \<open>NewBlockTemplate\<close> visits the pool's transactions in an order
  that is a rearrangement of the pool's listing in which the admission times, in
  whole seconds, never decrease; the transactions it appends to the block are in
  that order. The order of transactions admitted in the same second is not fixed by
  their admission times or hashes.
\<close>

theorem sortByTime_sorted_permutation:
  "sorted_wrt (\<lambda>a b. Unix (Added a) \<le>s Unix (Added b)) (sortByTime txs)
   \<and> mset (sortByTime txs) = mset txs
   \<and> subseq (map fst (included (NewBlockTemplate c txs v db))) (sortByTime txs)"
proof -
  have "sorted_wrt (\<lambda>a b. Unix (Added a) \<le>s Unix (Added b)) (sortByTime txs)"
    unfolding sortByTime_def by (rule sorted_foldl_insertByTime) simp
  moreover have "mset (sortByTime txs) = mset txs"
    by (simp add: sortByTime_def mset_foldl_insertByTime)
  moreover have "subseq (map fst (included (NewBlockTemplate c txs v db))) (sortByTime txs)"
    using assemble_included [of c "sortByTime txs" "newAssembly v db"]
    by (auto simp: NewBlockTemplate_def newAssembly_def)
  ultimately show ?thesis
    by blast
qed

section \<open>The block gas cap\<close>



lemma at_cap_le: "w = MaxBlockGas \<Longrightarrow> uint w \<le> 10000000"
  by (simp add: MaxBlockGas_def)




lemma validateBlockTxs_over:
  "validate t db = (g, err, db1) \<Longrightarrow> GasValid g \<Longrightarrow> MaxBlockGas < gasSum + GasUsed g
   \<Longrightarrow> validateBlockTxs validate (t # rest) gasSum amount db status gasLog
       = Inl (Some errOverBlockLimit)"
  by (simp add: Let_def)







section \<open>Standardness\<close>

lemma standardGasInputs_Cons:
  "standardGasInputs vm t (i # ids) = None
   \<longleftrightarrow> gasInputStandard vm t i \<and> standardGasInputs vm t ids = None"
proof (cases "lookupEntry t i")
  case None
  then show ?thesis
    by (simp add: gasInputStandard_def)
next
  case entry: (Some e)
  show ?thesis
  proof (cases e)
    case (SpendE spend)
    show ?thesis
    proof (cases "SpentOutputId spend")
      case None
      then show ?thesis
        using entry SpendE by (simp add: gasInputStandard_def)
    next
      case spent: (Some outID)
      show ?thesis
      proof (cases "lookupEntry t outID")
        case None
        then show ?thesis
          using entry SpendE spent by (simp add: gasInputStandard_def Tx_Output_def)
      next
        case prevout: (Some e2)
        show ?thesis
          using entry SpendE spent prevout
          by (cases e2) (simp_all add: gasInputStandard_def Tx_Output_def)
      qed
    qed
  qed (use entry in \<open>simp_all add: gasInputStandard_def\<close>)
qed

lemma standardGasInputs_iff:
  "standardGasInputs vm t ids = None \<longleftrightarrow> (\<forall>i \<in> set ids. gasInputStandard vm t i)"
  by (induction ids) (simp_all only: standardGasInputs_Cons standardGasInputs.simps(1)
      list.set ball_simps simp_thms)

lemma standardResults_Cons:
  "standardResults vm t (i # ids) = None
   \<longleftrightarrow> resultStandard vm t i \<and> standardResults vm t ids = None"
proof (cases "lookupEntry t i")
  case None
  then show ?thesis
    by (simp add: resultStandard_def)
next
  case entry: (Some e)
  show ?thesis
  proof (cases e)
    case (OutputE out)
    show ?thesis
    proof (cases "Output.Source out")
      case None
      then show ?thesis
        using entry OutputE by (simp add: resultStandard_def)
    next
      case src: (Some s)
      show ?thesis
      proof (cases "ValueSource.Value s")
        case None
        then show ?thesis
          using entry OutputE src by (simp add: resultStandard_def)
      next
        case amount: (Some v)
        show ?thesis
          using entry OutputE src amount
          by (cases "AssetId v") (auto simp: resultStandard_def)
      qed
    qed
  qed (use entry in \<open>simp_all add: resultStandard_def\<close>)
qed

lemma standardResults_iff:
  "standardResults vm t ids = None \<longleftrightarrow> (\<forall>i \<in> set ids. resultStandard vm t i)"
  by (induction ids) (simp_all only: standardResults_Cons standardResults.simps(1)
      list.set ball_simps simp_thms)

lemma four_instructions_not_P2W:
  "ParseProgram vm prog = Inr insts \<Longrightarrow> length insts = 4 \<Longrightarrow> \<not> IsP2WScript vm prog"
  by (simp add: IsP2WScript_def IsP2WSHScript_def IsStraightforward_def IsP2ContractProgram_def)

lemma deposit_withdraw_not_P2W:
  "IsOpDeposit vm prog \<or> IsOpWithdraw vm prog \<Longrightarrow> \<not> IsP2WScript vm prog"
  by (auto simp: IsOpDeposit_def IsOpWithdraw_def split: sum.splits if_splits
      dest: four_instructions_not_P2W)

lemma parse_demoWithdrawProgram:
  "parseProgram demoWithdrawProgram
     = Inr [Instruction 0x00 1 [], Instruction 0x00 1 [],
            Instruction 0x14 21 (replicate 20 0xaa), Instruction 0xd5 1 []]"
  by (simp add: demoWithdrawProgram_def parseOp_def)

text \<open>
  Claim C6, as stated, fails in the direction from the programs to the check: a
  native-asset output to a withdraw program is recognized as op-withdraw, and the
  transaction has no gas input and no other result, yet \<open>checkStandardTx\<close> rejects
  it. \<open>IsP2WScript\<close> admits the pay-to-witness family only.
\<close>

theorem checkStandardTx_withdraw_output_counterexample:
  "GasInputIDs demoWithdrawTx = []
   \<and> ResultIds (Header demoWithdrawTx) = [demoOutId]
   \<and> lookupEntry demoWithdrawTx demoOutId = Some (OutputE demoWithdrawOutput)
   \<and> IsOpWithdraw bvm (Code (Output.ControlProgram demoWithdrawOutput))
   \<and> recognizedStandard bvm (Code (Output.ControlProgram demoWithdrawOutput))
   \<and> checkStandardTx bvm demoWithdrawTx = Some ErrNotStandardTx"
proof -
  have w: "IsOpWithdraw bvm demoWithdrawProgram"
    by (simp add: IsOpWithdraw_def bvm_def parse_demoWithdrawProgram)
  have n: "\<not> IsP2WScript bvm demoWithdrawProgram"
    by (rule four_instructions_not_P2W [of bvm _
          "[Instruction 0x00 1 [], Instruction 0x00 1 [],
            Instruction 0x14 21 (replicate 20 0xaa), Instruction 0xd5 1 []]"])
      (simp_all add: bvm_def parse_demoWithdrawProgram)
  have l: "lookupEntry demoWithdrawTx demoOutId = Some (OutputE demoWithdrawOutput)"
    by (simp add: lookupEntry_def demoWithdrawTx_def)
  have "checkStandardTx bvm demoWithdrawTx = Some ErrNotStandardTx"
    using n l
    by (simp add: checkStandardTx_def demoWithdrawTx_def demoTx_def demoHeader_def
        demoWithdrawOutput_def demoValue_def)
  then show ?thesis
    using w l
    by (simp add: recognizedStandard_def demoWithdrawOutput_def demoWithdrawTx_def
        demoTx_def demoHeader_def)
qed

text \<open>
  Claim C6, amended. A transaction passes \<open>checkStandardTx\<close> if and only if every
  gas input id is that of a spend whose spent output is an output entry of the
  transaction with a pay-to-witness control program (P2WSH, straightforward or
  pay-to-contract) or of a withdrawal with such a control program, and every result
  id is that of an entry of the transaction which, when it is an output of the native
  asset, has a pay-to-witness control program. An op-deposit or op-withdraw program
  is never pay-to-witness, whatever the parser and the opcode table.
\<close>

theorem checkStandardTx_iff:
  "(checkStandardTx vm t = None
      \<longleftrightarrow> (\<forall>i \<in> set (GasInputIDs t). gasInputStandard vm t i)
        \<and> (\<forall>i \<in> set (ResultIds (Header t)). resultStandard vm t i))
   \<and> (IsOpDeposit vm prog \<or> IsOpWithdraw vm prog \<longrightarrow> \<not> IsP2WScript vm prog)"
proof -
  have "checkStandardTx vm t = None
      \<longleftrightarrow> standardGasInputs vm t (GasInputIDs t) = None
        \<and> standardResults vm t (ResultIds (Header t)) = None"
    by (simp add: checkStandardTx_def split: option.split)
  then show ?thesis
    using deposit_withdraw_not_P2W [of vm prog]
    by (simp only: standardGasInputs_iff standardResults_iff) blast
qed

theorem checkStandardTx_iff_witness:
  "checkStandardTx bvm demoTx = None
   \<and> (IsOpWithdraw bvm demoWithdrawProgram \<and> \<not> IsP2WScript bvm demoWithdrawProgram)"
proof -
  have p: "IsP2WScript bvm [0x51]"
    by (simp add: IsP2WScript_def IsStraightforward_def bvm_def parseOp_def)
  have r: "\<forall>i \<in> set (ResultIds (Header demoTx)). resultStandard bvm demoTx i"
    using p
    by (simp add: demoTx_def demoHeader_def resultStandard_def lookupEntry_def demoEntries_def
        demoOutput_def demoValue_def)
  have g: "\<forall>i \<in> set (GasInputIDs demoTx). gasInputStandard bvm demoTx i"
    by (simp add: demoTx_def)
  have w: "IsOpWithdraw bvm demoWithdrawProgram"
    by (simp add: IsOpWithdraw_def bvm_def parse_demoWithdrawProgram)
  from checkStandardTx_iff [of bvm demoTx demoWithdrawProgram] g r w show ?thesis
    by blast
qed

section \<open>Conservation at the mux\<close>












subsection \<open>setGas and the loop over the parity map\<close>






















section \<open>Reference symmetry\<close>




lemma shared_fields [simp]:
  "tx (shared vs vs2) = tx vs" "entryID (shared vs vs2) = entryID vs"
  "sourcePos (shared vs vs2) = sourcePos vs" "destPos (shared vs vs2) = destPos vs"
  "cache (shared vs vs2) = cache vs2" "block (shared vs vs2) = block vs"
  by (simp_all add: shared_def)




lemma checkMuxSources_frame:
  "checkMuxSources rec vs i srcs = Some (err, vs') \<Longrightarrow> tx vs' = tx vs \<and> entryID vs' = entryID vs"
proof (induction srcs arbitrary: vs i)
  case Nil
  then show ?case by simp
next
  case (Cons src rest)
  then show ?case
    by (fastforce split: option.splits)
qed

































end
